theory Spec2Isabelle
  imports Main
begin

section \<open>Data model\<close>

text \<open>
  The unlock subsystem of \<^verbatim>\<open>app/routes/integrated_assessment.py\<close> works on two MongoDB
  collections: \<^verbatim>\<open>learning_progress\<close> (one progress document per learner and phase) and
  \<^verbatim>\<open>users\<close> (whose \<^verbatim>\<open>road_map\<close> field holds the curriculum as a JSON document).
  A JSON object is a record whose fields are optional, so that \<^verbatim>\<open>d.get(k, default)\<close> and
  \<^verbatim>\<open>d[k]\<close> (which raises \<^verbatim>\<open>KeyError\<close>) can both be written down.
\<close>

type_synonym user_id = string
type_synonym timestamp = nat

text \<open>
  A phase identifier reaches the code either as an integer (the Flask converter
  \<^verbatim>\<open><int:phase_id>\<close>, a JSON number) or as a string (a JSON string, a key of a
  JSON object).
\<close>

datatype phase_key = IntKey int | StrKey string

datatype exn = ConnectionFailure | AttributeError | KeyError | IndexError | TypeError

text \<open>
  A day number is whatever JSON value stands where it is expected: the routes take
  \<^verbatim>\<open>data.get('day')\<close> from the request without a check and add it to the completed
  assessments, and the curriculum is generated text. \<open>Day d\<close> is the integer \<open>d\<close>;
  \<open>Null\<close> (also what \<^verbatim>\<open>data.get('day')\<close> gives when the request has no day) and
  \<open>Text s\<close> are the values on which \<^verbatim>\<open>day + 1\<close> raises \<^verbatim>\<open>TypeError\<close>. The unlocked days are
  integers: every writer of that list writes \<open>[1]\<close> or sums \<^verbatim>\<open>day + 1\<close>. Integers are Python's,
  without a bound. Two things are left out: a day given as a JSON number with a fraction
  (on which the arithmetic is that of floating point), and the limit of 64 bits that the
  database driver puts on a stored integer.
\<close>

datatype jday = Day int | Null | Text string

record assessment =
  a_completed :: "bool option"
  a_score :: "int option"
  a_status :: "string option"
  a_attempts :: "int option"
  a_submitted_at :: "timestamp option"
  a_completed_at :: "timestamp option"

record task =
  t_day :: "jday option"
  t_assessment :: "assessment option"
  t_assessed :: "bool option"
  t_assessment_completed :: "bool option"

record week =
  daily_tasks :: "task list option"

record learning_plan =
  weekly_schedule :: "week list option"

record phase =
  ph_learning_plan :: "learning_plan option"

text \<open>
  \<^verbatim>\<open>roadmap_data['phases']\<close> is a JSON array in the documents the generator writes (the
  other routes index it with an integer and take its \<^verbatim>\<open>len\<close>), while
  \<^verbatim>\<open>reset_unlock_status\<close> reads it with \<^verbatim>\<open>.get(phase_id, {})\<close>, as a JSON object. The keys
  of a JSON object are strings.
\<close>

datatype phases_val = PhaseList "phase list" | PhaseDict "string \<Rightarrow> phase option"

record roadmap =
  phases :: "phases_val option"

record user =
  road_map :: "roadmap option"

record progress_doc =
  pd_unlocked_days :: "int list option"
  pd_completed_assessments :: "jday list option"
  pd_unlock_trigger :: "string option"
  pd_created_at :: "timestamp option"
  pd_updated_at :: "timestamp option"

text \<open>
  The state of the storage layer. \<open>faults\<close> is the schedule of storage failures: every
  database call consumes its head and raises when it is \<open>True\<close>; the empty schedule means
  that no call fails.
\<close>

record world =
  learning_progress :: "user_id \<times> phase_key \<Rightarrow> progress_doc option"
  users :: "user_id \<Rightarrow> user option"
  faults :: "bool list"

definition empty_doc :: progress_doc where
  "empty_doc = \<lparr>pd_unlocked_days = None, pd_completed_assessments = None,
     pd_unlock_trigger = None, pd_created_at = None, pd_updated_at = None\<rparr>"

section \<open>Storage operations\<close>

definition db_fault :: "world \<Rightarrow> bool \<times> world" where
  "db_fault w = (case faults w of [] \<Rightarrow> (False, w) | f # fs \<Rightarrow> (f, w\<lparr>faults := fs\<rparr>))"

definition find_one :: "world \<Rightarrow> user_id \<times> phase_key \<Rightarrow> (exn + progress_doc option) \<times> world" where
  "find_one w k = (case db_fault w of
      (True, w') \<Rightarrow> (Inl ConnectionFailure, w')
    | (False, w') \<Rightarrow> (Inr (learning_progress w' k), w'))"

definition insert_one :: "world \<Rightarrow> user_id \<times> phase_key \<Rightarrow> progress_doc \<Rightarrow> (exn + unit) \<times> world" where
  "insert_one w k doc = (case db_fault w of
      (True, w') \<Rightarrow> (Inl ConnectionFailure, w')
    | (False, w') \<Rightarrow> (Inr (), w'\<lparr>learning_progress := (learning_progress w')(k \<mapsto> doc)\<rparr>))"

text \<open>
  \<^verbatim>\<open>update_one(filter, update, upsert)\<close>: the update document is a function on progress
  documents; with \<^verbatim>\<open>upsert=True\<close> a missing document is created from the filter and the
  update, without it a missing document leaves the collection as it is.
\<close>

definition update_one ::
  "world \<Rightarrow> user_id \<times> phase_key \<Rightarrow> (progress_doc \<Rightarrow> progress_doc) \<Rightarrow> bool \<Rightarrow> (exn + unit) \<times> world" where
  "update_one w k upd upsert = (case db_fault w of
      (True, w') \<Rightarrow> (Inl ConnectionFailure, w')
    | (False, w') \<Rightarrow>
        (case learning_progress w' k of
           Some doc \<Rightarrow> (Inr (), w'\<lparr>learning_progress := (learning_progress w')(k \<mapsto> upd doc)\<rparr>)
         | None \<Rightarrow>
             if upsert
             then (Inr (), w'\<lparr>learning_progress := (learning_progress w')(k \<mapsto> upd empty_doc)\<rparr>)
             else (Inr (), w')))"

text \<open>
  Modelled from the spec: \<^verbatim>\<open>app/utils/db_utils.py\<close> (\<^verbatim>\<open>get_db\<close>, \<^verbatim>\<open>get_user_by_id\<close>) is
  not among the sources. The curriculum accessor returns the learner's document, or
  \<^verbatim>\<open>None\<close> for an unknown learner; it is a database call and can fail like one.
\<close>

definition get_user_by_id :: "world \<Rightarrow> user_id \<Rightarrow> (exn + user option) \<times> world" where
  "get_user_by_id w uid = (case db_fault w of
      (True, w') \<Rightarrow> (Inl ConnectionFailure, w')
    | (False, w') \<Rightarrow> (Inr (users w' uid), w'))"

text \<open>\<^verbatim>\<open>db.users.update_one({"user_id": uid}, {"$set": {"road_map": json.dumps(rm)}})\<close>\<close>

definition users_set_road_map :: "world \<Rightarrow> user_id \<Rightarrow> roadmap \<Rightarrow> (exn + unit) \<times> world" where
  "users_set_road_map w uid rm = (case db_fault w of
      (True, w') \<Rightarrow> (Inl ConnectionFailure, w')
    | (False, w') \<Rightarrow>
        (case users w' uid of
           Some u \<Rightarrow> (Inr (), w'\<lparr>users := (users w')(uid \<mapsto> u\<lparr>road_map := Some rm\<rparr>)\<rparr>)
         | None \<Rightarrow> (Inr (), w')))"

section \<open>The unlock manager\<close>

subsection \<open>Sequential unlocking\<close>

text \<open>
  The loop shared by \<^verbatim>\<open>_evaluate_unlock_conditions\<close> and \<^verbatim>\<open>reset_unlock_status\<close>:
  \<^verbatim>\<open>
  for completed_day in sorted(completed):
      next_day = completed_day + 1
      if next_day not in unlocked and <limit>:
          unlocked.append(next_day)
  \<close>
  The first has the limit \<^verbatim>\<open>next_day <= 30\<close>, the second has none.
\<close>

fun add_sequential :: "(int \<Rightarrow> bool) \<Rightarrow> int list \<Rightarrow> int list \<Rightarrow> int list" where
  "add_sequential limit unlocked [] = unlocked"
| "add_sequential limit unlocked (completed_day # rest) =
     (let next_day = completed_day + 1 in
      if next_day \<notin> set unlocked \<and> limit next_day
      then add_sequential limit (unlocked @ [next_day]) rest
      else add_sequential limit unlocked rest)"

definition get_list :: "int list option \<Rightarrow> int list" where
  "get_list v = (case v of None \<Rightarrow> [] | Some xs \<Rightarrow> xs)"

definition get_days :: "jday list option \<Rightarrow> jday list" where
  "get_days v = (case v of None \<Rightarrow> [] | Some xs \<Rightarrow> xs)"

text \<open>
  The integers of a list of days, when all of them are integers. Where the code sorts
  such a list, takes its maximum and adds 1 to each element, a list with an element that
  is no integer raises \<^verbatim>\<open>TypeError\<close> in one of the three, and nothing is written in between.
\<close>

fun integer_days :: "jday list \<Rightarrow> int list option" where
  "integer_days [] = Some []"
| "integer_days (Day d # rest) = (case integer_days rest of None \<Rightarrow> None | Some ds \<Rightarrow> Some (d # ds))"
| "integer_days (v # rest) = None"

subsection \<open>reset_unlock_status\<close>

text \<open>\<^verbatim>\<open>roadmap_data.get('phases', {}).get(phase_id, {})\<close>: a list has no \<^verbatim>\<open>get\<close>.\<close>

definition empty_phase :: phase where
  "empty_phase = \<lparr>ph_learning_plan = None\<rparr>"

definition phases_get :: "roadmap \<Rightarrow> phase_key \<Rightarrow> exn + phase" where
  "phases_get rm pid = (case phases rm of
      None \<Rightarrow> Inr empty_phase
    | Some (PhaseList ps) \<Rightarrow> Inl AttributeError
    | Some (PhaseDict d) \<Rightarrow>
        (case pid of
           IntKey i \<Rightarrow> Inr empty_phase
         | StrKey s \<Rightarrow> (case d s of None \<Rightarrow> Inr empty_phase | Some ph \<Rightarrow> Inr ph)))"

text \<open>\<^verbatim>\<open>phase_data.get('learning_plan', {}).get('weekly_schedule', [])\<close>\<close>

definition get_weekly_schedule :: "phase \<Rightarrow> week list" where
  "get_weekly_schedule ph = (case ph_learning_plan ph of
      None \<Rightarrow> []
    | Some lp \<Rightarrow> (case weekly_schedule lp of None \<Rightarrow> [] | Some ws \<Rightarrow> ws))"

definition get_daily_tasks :: "week \<Rightarrow> task list" where
  "get_daily_tasks wk = (case daily_tasks wk of None \<Rightarrow> [] | Some ts \<Rightarrow> ts)"

text \<open>
  \<^verbatim>\<open>assessment.get('completed') == True and assessment.get('score', 0) >= 70\<close>, on
  \<^verbatim>\<open>task.get('assessment', {})\<close>.
\<close>

definition assessment_passed :: "task \<Rightarrow> bool" where
  "assessment_passed t = (case t_assessment t of
      None \<Rightarrow> False
    | Some a \<Rightarrow> a_completed a = Some True \<and> (case a_score a of None \<Rightarrow> 0 | Some s \<Rightarrow> s) \<ge> 70)"

text \<open>\<^verbatim>\<open>task.get('day', 0)\<close>\<close>

definition task_day :: "task \<Rightarrow> jday" where
  "task_day t = (case t_day t of None \<Rightarrow> Day 0 | Some d \<Rightarrow> d)"

definition actually_completed :: "week list \<Rightarrow> jday list" where
  "actually_completed ws = map task_day (filter assessment_passed (concat (map get_daily_tasks ws)))"

datatype reset_result =
  ResetSuccess (before_completed: "int list") (corrected_unlocked: "int list")
  | ResetError exn

definition reset_update :: "int list \<Rightarrow> int list \<Rightarrow> timestamp \<Rightarrow> progress_doc \<Rightarrow> progress_doc" where
  "reset_update unlocked completed now doc =
     doc\<lparr>pd_unlocked_days := Some unlocked, pd_completed_assessments := Some (map Day completed),
         pd_unlock_trigger := Some ''reset_corrected'', pd_updated_at := Some now\<rparr>"

definition reset_unlock_status ::
  "world \<Rightarrow> user_id \<Rightarrow> phase_key \<Rightarrow> timestamp \<Rightarrow> reset_result \<times> world" where
  "reset_unlock_status w uid pid now =
     (case get_user_by_id w uid of
        (Inl e, w1) \<Rightarrow> (ResetError e, w1)
      | (Inr None, w1) \<Rightarrow> (ResetError AttributeError, w1)
      | (Inr (Some u), w1) \<Rightarrow>
          (let roadmap_data = (case road_map u of None \<Rightarrow> \<lparr>phases = None\<rparr> | Some rm \<Rightarrow> rm) in
           case phases_get roadmap_data pid of
             Inl e \<Rightarrow> (ResetError e, w1)
           | Inr phase_data \<Rightarrow>
               (case integer_days (actually_completed (get_weekly_schedule phase_data)) of
                  None \<Rightarrow> (ResetError TypeError, w1)
                | Some completed \<Rightarrow>
                    (let unlocked = add_sequential (\<lambda>n. True) [1] (sort completed)
                     in case update_one w1 (uid, pid) (reset_update unlocked completed now) True of
                          (Inl e, w2) \<Rightarrow> (ResetError e, w2)
                        | (Inr _, w2) \<Rightarrow> (ResetSuccess completed unlocked, w2)))))"

subsection \<open>_update_progress\<close>

definition progress_update :: "int list \<Rightarrow> string \<Rightarrow> timestamp \<Rightarrow> progress_doc \<Rightarrow> progress_doc" where
  "progress_update unlocked trigger now doc =
     doc\<lparr>pd_unlocked_days := Some unlocked, pd_unlock_trigger := Some trigger,
         pd_updated_at := Some now\<rparr>"

text \<open>The method catches every exception of the write and returns nothing.\<close>

definition update_progress ::
  "world \<Rightarrow> user_id \<Rightarrow> phase_key \<Rightarrow> int list \<Rightarrow> string \<Rightarrow> timestamp \<Rightarrow> world" where
  "update_progress w uid pid unlocked trigger now =
     snd (update_one w (uid, pid) (progress_update unlocked trigger now) True)"

subsection \<open>_evaluate_unlock_conditions\<close>

record unlock_status =
  unlocked_days :: "int list"
  completed_assessments :: "int list option"
  current_day :: int
  unlock_trigger :: string

text \<open>
  \<^verbatim>\<open>
  current_day = None
  for day in sorted(unlocked_days):
      if day not in completed_assessments:
          current_day = day
          break
  current_day = current_day or (max(unlocked_days) if unlocked_days else 1)
  \<close>
  \<^verbatim>\<open>or\<close> also passes over a found day \<open>0\<close>.
\<close>

definition find_current_day :: "int list \<Rightarrow> int list \<Rightarrow> int" where
  "find_current_day unlocked completed =
     (let fallback = (if unlocked \<noteq> [] then Max (set unlocked) else 1) in
      case find (\<lambda>d. d \<notin> set completed) (sort unlocked) of
        None \<Rightarrow> fallback
      | Some d \<Rightarrow> if d \<noteq> 0 then d else fallback)"

text \<open>
  The method has no handler of its own: the \<^verbatim>\<open>TypeError\<close> of a completed day that is no
  integer (raised by \<^verbatim>\<open>max\<close>, \<^verbatim>\<open>sorted\<close> or \<^verbatim>\<open>completed_day + 1\<close>, lines 1031 to 1036) leaves
  it, after the reset and the first unlock have been written.
\<close>

definition evaluate_unlock_conditions ::
  "world \<Rightarrow> user_id \<Rightarrow> phase_key \<Rightarrow> progress_doc \<Rightarrow> timestamp \<Rightarrow> (exn + unlock_status) \<times> world" where
  "evaluate_unlock_conditions w uid pid progress now =
     (let unlocked0 = get_list (pd_unlocked_days progress);
          completed0 = get_days (pd_completed_assessments progress);
          (unlocked1, completed1, w1) =
            (if length unlocked0 > length completed0 + 1
             then (case reset_unlock_status w uid pid now of
                     (ResetSuccess bc cu, w') \<Rightarrow> (cu, map Day bc, w')
                   | (ResetError e, w') \<Rightarrow> (unlocked0, completed0, w'))
             else (unlocked0, completed0, w));
          (unlocked2, w2) =
            (if unlocked1 = [] \<or> 1 \<notin> set unlocked1
             then ([1], update_progress w1 uid pid [1] ''first_unlock'' now)
             else (unlocked1, w1))
      in case integer_days completed1 of
           None \<Rightarrow> (Inl TypeError, w2)
         | Some completed \<Rightarrow>
             (let correct_unlocked = add_sequential (\<lambda>n. n \<le> 30) [1] (sort completed);
                  (unlocked3, w3) =
                    (if set unlocked2 \<noteq> set correct_unlocked
                     then (sort correct_unlocked,
                           update_progress w2 uid pid (sort correct_unlocked) ''corrected'' now)
                     else (unlocked2, w2))
              in (Inr \<lparr>unlocked_days = unlocked3, completed_assessments = Some completed,
                       current_day = find_current_day unlocked3 completed,
                       unlock_trigger =
                         (case pd_unlock_trigger progress of None \<Rightarrow> ''sequential'' | Some t \<Rightarrow> t)\<rparr>,
                  w3)))"

subsection \<open>check_unlock_status\<close>

definition initial_doc :: "timestamp \<Rightarrow> progress_doc" where
  "initial_doc now = \<lparr>pd_unlocked_days = Some [], pd_completed_assessments = Some [],
     pd_unlock_trigger = Some ''none'', pd_created_at = Some now, pd_updated_at = None\<rparr>"

text \<open>The body of the \<^verbatim>\<open>try\<close> block: \<open>Inl\<close> is an exception that leaves it.\<close>

definition check_unlock_status_body ::
  "world \<Rightarrow> user_id \<Rightarrow> phase_key \<Rightarrow> timestamp \<Rightarrow> (exn + unlock_status) \<times> world" where
  "check_unlock_status_body w uid pid now =
     (case find_one w (uid, pid) of
        (Inl e, w1) \<Rightarrow> (Inl e, w1)
      | (Inr (Some progress), w1) \<Rightarrow> evaluate_unlock_conditions w1 uid pid progress now
      | (Inr None, w1) \<Rightarrow>
          (case insert_one w1 (uid, pid) (initial_doc now) of
             (Inl e, w2) \<Rightarrow> (Inl e, w2)
           | (Inr _, w2) \<Rightarrow> evaluate_unlock_conditions w2 uid pid (initial_doc now) now))"

definition default_status :: unlock_status where
  "default_status = \<lparr>unlocked_days = [1], completed_assessments = None, current_day = 1,
     unlock_trigger = ''default''\<rparr>"

definition check_unlock_status ::
  "world \<Rightarrow> user_id \<Rightarrow> phase_key \<Rightarrow> timestamp \<Rightarrow> unlock_status \<times> world" where
  "check_unlock_status w uid pid now =
     (case check_unlock_status_body w uid pid now of
        (Inl e, w') \<Rightarrow> (default_status, w')
      | (Inr st, w') \<Rightarrow> (st, w'))"

subsection \<open>trigger_automatic_unlock\<close>

datatype unlock_error = NoProgressDocument | DayNotCompleted | UnlockException exn

datatype unlock_result =
  Unlocked (unlocked_day: int) (new_unlocked_days: "int list")
  | AlreadyUnlocked
  | UnlockFailed unlock_error

definition auto_update :: "int list \<Rightarrow> timestamp \<Rightarrow> progress_doc \<Rightarrow> progress_doc" where
  "auto_update unlocked now doc =
     doc\<lparr>pd_unlocked_days := Some unlocked, pd_unlock_trigger := Some ''auto_sequential'',
         pd_updated_at := Some now\<rparr>"

definition trigger_automatic_unlock ::
  "world \<Rightarrow> user_id \<Rightarrow> phase_key \<Rightarrow> jday \<Rightarrow> timestamp \<Rightarrow> unlock_result \<times> world" where
  "trigger_automatic_unlock w uid pid completed_day now =
     (case find_one w (uid, pid) of
        (Inl e, w1) \<Rightarrow> (UnlockFailed (UnlockException e), w1)
      | (Inr None, w1) \<Rightarrow> (UnlockFailed NoProgressDocument, w1)
      | (Inr (Some progress), w1) \<Rightarrow>
          (let unlocked = get_list (pd_unlocked_days progress);
               completed = get_days (pd_completed_assessments progress)
           in if completed_day \<in> set completed
              then (case completed_day of
                      Day d \<Rightarrow>
                        (let next_day = d + 1 in
                         if next_day \<notin> set unlocked
                         then (case update_one w1 (uid, pid) (auto_update (unlocked @ [next_day]) now) False of
                                 (Inl e, w2) \<Rightarrow> (UnlockFailed (UnlockException e), w2)
                               | (Inr _, w2) \<Rightarrow> (Unlocked next_day (unlocked @ [next_day]), w2))
                         else (AlreadyUnlocked, w1))
                    | _ \<Rightarrow> (UnlockFailed (UnlockException TypeError), w1))
              else (UnlockFailed DayNotCompleted, w1)))"

section \<open>The assessment routes\<close>

subsection \<open>Addressing a task of the curriculum\<close>

text \<open>Python's \<^verbatim>\<open>xs[i]\<close>: a negative index counts from the end.\<close>

definition py_pos :: "'a list \<Rightarrow> int \<Rightarrow> nat option" where
  "py_pos xs i =
     (if 0 \<le> i \<and> i < int (length xs) then Some (nat i)
      else if i < 0 \<and> - int (length xs) \<le> i then Some (nat (int (length xs) + i))
      else None)"

definition py_index :: "'a list \<Rightarrow> int \<Rightarrow> exn + 'a" where
  "py_index xs i = (case py_pos xs i of None \<Rightarrow> Inl IndexError | Some j \<Rightarrow> Inr (xs ! j))"

definition py_modify :: "'a list \<Rightarrow> int \<Rightarrow> ('a \<Rightarrow> 'a) \<Rightarrow> 'a list" where
  "py_modify xs i f = (case py_pos xs i of None \<Rightarrow> xs | Some j \<Rightarrow> xs[j := f (xs ! j)])"

text \<open>
  \<^verbatim>\<open>roadmap_data['phases'][phase_id]\<close>: an integer indexes a list, a string is looked up in
  an object; the other combinations raise.
\<close>

definition phases_item :: "roadmap \<Rightarrow> phase_key option \<Rightarrow> exn + phase" where
  "phases_item rm pid = (case phases rm of
      None \<Rightarrow> Inl KeyError
    | Some (PhaseList ps) \<Rightarrow>
        (case pid of Some (IntKey i) \<Rightarrow> py_index ps i | _ \<Rightarrow> Inl TypeError)
    | Some (PhaseDict d) \<Rightarrow>
        (case pid of
           Some (StrKey s) \<Rightarrow> (case d s of None \<Rightarrow> Inl KeyError | Some ph \<Rightarrow> Inr ph)
         | _ \<Rightarrow> Inl KeyError))"

text \<open>
  \<^verbatim>\<open>roadmap_data['phases'][phase_id]['learning_plan']['weekly_schedule'][week_index]['daily_tasks'][task_index]\<close>
\<close>

definition locate_task :: "roadmap \<Rightarrow> phase_key option \<Rightarrow> int \<Rightarrow> int \<Rightarrow> exn + task" where
  "locate_task rm pid week_index task_index =
     (case phases_item rm pid of
        Inl e \<Rightarrow> Inl e
      | Inr ph \<Rightarrow>
     (case ph_learning_plan ph of
        None \<Rightarrow> Inl KeyError
      | Some lp \<Rightarrow>
     (case weekly_schedule lp of
        None \<Rightarrow> Inl KeyError
      | Some ws \<Rightarrow>
     (case py_index ws week_index of
        Inl e \<Rightarrow> Inl e
      | Inr wk \<Rightarrow>
     (case daily_tasks wk of
        None \<Rightarrow> Inl KeyError
      | Some ts \<Rightarrow> py_index ts task_index)))))"

text \<open>The same path, written: the task found there is replaced by its image under \<open>f\<close>.\<close>

definition modify_phase :: "(phase \<Rightarrow> phase) \<Rightarrow> roadmap \<Rightarrow> phase_key option \<Rightarrow> roadmap" where
  "modify_phase f rm pid = (case phases rm of
      Some (PhaseList ps) \<Rightarrow>
        (case pid of
           Some (IntKey i) \<Rightarrow> rm\<lparr>phases := Some (PhaseList (py_modify ps i f))\<rparr>
         | _ \<Rightarrow> rm)
    | Some (PhaseDict d) \<Rightarrow>
        (case pid of
           Some (StrKey s) \<Rightarrow>
             (case d s of None \<Rightarrow> rm | Some ph \<Rightarrow> rm\<lparr>phases := Some (PhaseDict (d(s \<mapsto> f ph)))\<rparr>)
         | _ \<Rightarrow> rm)
    | None \<Rightarrow> rm)"

definition modify_task :: "(task \<Rightarrow> task) \<Rightarrow> roadmap \<Rightarrow> phase_key option \<Rightarrow> int \<Rightarrow> int \<Rightarrow> roadmap" where
  "modify_task f rm pid week_index task_index =
     modify_phase
       (\<lambda>ph. ph\<lparr>ph_learning_plan :=
          map_option (\<lambda>lp. lp\<lparr>weekly_schedule :=
            map_option (\<lambda>ws. py_modify ws week_index
              (\<lambda>wk. wk\<lparr>daily_tasks :=
                 map_option (\<lambda>ts. py_modify ts task_index f) (daily_tasks wk)\<rparr>))
              (weekly_schedule lp)\<rparr>)
            (ph_learning_plan ph)\<rparr>)
       rm pid"

text \<open>\<^verbatim>\<open>{"$addToSet": {"completed_assessments": day}, "$set": {"updated_at": now}}\<close>\<close>

definition add_to_set :: "'a \<Rightarrow> 'a list \<Rightarrow> 'a list" where
  "add_to_set d xs = (if d \<in> set xs then xs else xs @ [d])"

definition completed_update :: "jday \<Rightarrow> timestamp \<Rightarrow> progress_doc \<Rightarrow> progress_doc" where
  "completed_update d now doc =
     doc\<lparr>pd_completed_assessments := Some (add_to_set d (get_days (pd_completed_assessments doc))),
         pd_updated_at := Some now\<rparr>"

text \<open>A dictionary is true in a condition when it has a key.\<close>

definition assessment_truthy :: "assessment \<Rightarrow> bool" where
  "assessment_truthy a \<longleftrightarrow>
     a_completed a \<noteq> None \<or> a_score a \<noteq> None \<or> a_status a \<noteq> None \<or> a_attempts a \<noteq> None
     \<or> a_submitted_at a \<noteq> None \<or> a_completed_at a \<noteq> None"

definition get_attempts :: "assessment \<Rightarrow> int" where
  "get_attempts a = (case a_attempts a of None \<Rightarrow> 0 | Some n \<Rightarrow> n)"

subsection \<open>submit_assessment\<close>

text \<open>
  The answers are a JSON object of strings. The two evaluators
  (\<^verbatim>\<open>strict_theory_evaluation\<close>, \<^verbatim>\<open>strict_coding_evaluation\<close>) are functions of the answers
  and the day's content that catch their own exceptions; the route reads the
  \<^verbatim>\<open>score\<close> of what they return. They are parameters of the model: what is proved of the
  route holds for every pair of evaluators.
\<close>

type_synonym answers = "(string \<times> string) list"

record evaluation =
  ev_score :: "int option"

record 'c submit_request =
  sr_phase_id :: "phase_key option"
  sr_day :: jday
  sr_week_index :: int
  sr_task_index :: int
  sr_assessment_type :: string
  sr_assessment_answers :: answers
  sr_day_content :: 'c

record submitted =
  passed :: bool
  attempts :: int
  score :: int
  unlock_info :: "unlock_result option"
  next_day_unlocked :: "int option"

datatype submit_response =
  NotAuthenticated
  | MissingFields
  | SubmissionError exn
  | StorageError exn
  | Submitted submitted

definition assessment_record :: "bool \<Rightarrow> int \<Rightarrow> int \<Rightarrow> timestamp \<Rightarrow> assessment" where
  "assessment_record is_passed final_score n now =
     \<lparr>a_completed = Some is_passed, a_score = Some final_score,
      a_status = Some (if is_passed then ''passed'' else ''failed''),
      a_attempts = Some n, a_submitted_at = Some now, a_completed_at = None\<rparr>"

text \<open>
  The inner \<^verbatim>\<open>try\<close> block of the route: it returns the attempt counter and the unlock
  result, or the exception that becomes the storage error.
\<close>

definition store_submission ::
  "world \<Rightarrow> user_id \<Rightarrow> phase_key \<Rightarrow> jday \<Rightarrow> int \<Rightarrow> int \<Rightarrow> roadmap \<Rightarrow> int \<Rightarrow> bool \<Rightarrow> timestamp
     \<Rightarrow> (exn + int \<times> unlock_result option) \<times> world" where
  "store_submission w uid pid d week_index task_index roadmap_data final_score is_passed now =
     (case locate_task roadmap_data (Some pid) week_index task_index of
        Inl e \<Rightarrow> (Inl e, w)
      | Inr t \<Rightarrow>
          (let n = (case t_assessment t of
                      None \<Rightarrow> 1
                    | Some existing \<Rightarrow> if assessment_truthy existing then get_attempts existing + 1 else 1);
               roadmap_data' = modify_task
                  (\<lambda>t. t\<lparr>t_assessment := Some (assessment_record is_passed final_score n now)\<rparr>)
                  roadmap_data (Some pid) week_index task_index
           in case users_set_road_map w uid roadmap_data' of
                (Inl e, w1) \<Rightarrow> (Inl e, w1)
              | (Inr _, w1) \<Rightarrow>
                  if is_passed
                  then (case update_one w1 (uid, pid) (completed_update d now) True of
                          (Inl e, w2) \<Rightarrow> (Inl e, w2)
                        | (Inr _, w2) \<Rightarrow>
                            (case trigger_automatic_unlock w2 uid pid d now of
                               (r, w3) \<Rightarrow> (Inr (n, Some r), w3)))
                  else (Inr (n, None), w1)))"

text \<open>
  The evaluation step of the route and \<^verbatim>\<open>evaluation_result.get('score', 0)\<close>:
  \<^verbatim>\<open>
  if assessment_type == 'theory':
      evaluation_result = strict_theory_evaluation(assessment_answers, day_content)
  elif assessment_type == 'coding':
      evaluation_result = strict_coding_evaluation(assessment_answers, day_content)
  else:
      evaluation_result = strict_theory_evaluation(assessment_answers, day_content)
  \<close>
\<close>

definition evaluate_answers ::
  "(answers \<Rightarrow> 'c \<Rightarrow> evaluation) \<Rightarrow> (answers \<Rightarrow> 'c \<Rightarrow> evaluation) \<Rightarrow> 'c submit_request \<Rightarrow> evaluation" where
  "evaluate_answers strict_theory_evaluation strict_coding_evaluation req =
     (if sr_assessment_type req = ''theory''
      then strict_theory_evaluation (sr_assessment_answers req) (sr_day_content req)
      else if sr_assessment_type req = ''coding''
      then strict_coding_evaluation (sr_assessment_answers req) (sr_day_content req)
      else strict_theory_evaluation (sr_assessment_answers req) (sr_day_content req))"

definition final_score_of :: "evaluation \<Rightarrow> int" where
  "final_score_of evaluation_result = (case ev_score evaluation_result of None \<Rightarrow> 0 | Some s \<Rightarrow> s)"

definition submit_assessment ::
  "(answers \<Rightarrow> 'c \<Rightarrow> evaluation) \<Rightarrow> (answers \<Rightarrow> 'c \<Rightarrow> evaluation) \<Rightarrow>
   world \<Rightarrow> user_id option \<Rightarrow> 'c submit_request \<Rightarrow> timestamp \<Rightarrow> submit_response \<times> world" where
  "submit_assessment strict_theory_evaluation strict_coding_evaluation w session req now =
     (case session of
        None \<Rightarrow> (NotAuthenticated, w)
      | Some uid \<Rightarrow>
     (case sr_phase_id req of
        None \<Rightarrow> (MissingFields, w)
      | Some pid \<Rightarrow>
          if sr_assessment_answers req = [] \<or> sr_assessment_type req = []
          then (MissingFields, w)
          else
            (let evaluation_result =
                   evaluate_answers strict_theory_evaluation strict_coding_evaluation req;
                 final_score = final_score_of evaluation_result;
                 is_passed = (final_score \<ge> 70)
             in case get_user_by_id w uid of
                  (Inl e, w1) \<Rightarrow> (SubmissionError e, w1)
                | (Inr None, w1) \<Rightarrow> (SubmissionError AttributeError, w1)
                | (Inr (Some u), w1) \<Rightarrow>
                    (let roadmap_data = (case road_map u of None \<Rightarrow> \<lparr>phases = None\<rparr> | Some rm \<Rightarrow> rm)
                     in case store_submission w1 uid pid (sr_day req) (sr_week_index req)
                               (sr_task_index req) roadmap_data final_score is_passed now of
                          (Inl e, w2) \<Rightarrow> (StorageError e, w2)
                        | (Inr (n, unlock), w2) \<Rightarrow>
                            (Submitted \<lparr>passed = is_passed, attempts = n, score = final_score,
                               unlock_info = (if is_passed then unlock else None),
                               next_day_unlocked =
                                 (case unlock of
                                    Some (Unlocked nd _) \<Rightarrow> if is_passed then Some nd else None
                                  | _ \<Rightarrow> None)\<rparr>, w2)))))"

subsection \<open>store_assessment\<close>

record assessment_result =
  ar_score :: "int option"

record store_request =
  st_phase_id :: "phase_key option"
  st_day :: jday
  st_week_index :: int
  st_task_index :: int
  st_assessment_result :: "assessment_result option"

datatype store_response = StoreNotAuthenticated | StoreError exn | Stored

definition stored_assessment :: "int \<Rightarrow> int \<Rightarrow> timestamp \<Rightarrow> assessment" where
  "stored_assessment result_score n now =
     \<lparr>a_completed = Some True, a_score = Some result_score, a_status = Some ''completed'',
      a_attempts = Some n, a_submitted_at = None, a_completed_at = Some now\<rparr>"

definition store_assessment ::
  "world \<Rightarrow> user_id option \<Rightarrow> store_request \<Rightarrow> timestamp \<Rightarrow> store_response \<times> world" where
  "store_assessment w session req now =
     (case session of
        None \<Rightarrow> (StoreNotAuthenticated, w)
      | Some uid \<Rightarrow>
     (case get_user_by_id w uid of
        (Inl e, w1) \<Rightarrow> (StoreError e, w1)
      | (Inr None, w1) \<Rightarrow> (StoreError AttributeError, w1)
      | (Inr (Some u), w1) \<Rightarrow>
          (let roadmap_data = (case road_map u of None \<Rightarrow> \<lparr>phases = None\<rparr> | Some rm \<Rightarrow> rm)
           in case locate_task roadmap_data (st_phase_id req) (st_week_index req) (st_task_index req) of
                Inl e \<Rightarrow> (StoreError e, w1)
              | Inr t \<Rightarrow>
                  (case st_assessment_result req of
                     None \<Rightarrow> (StoreError AttributeError, w1)
                   | Some res \<Rightarrow>
                       (let n = (case t_assessment t of None \<Rightarrow> 0 | Some a \<Rightarrow> get_attempts a) + 1;
                            result_score = (case ar_score res of None \<Rightarrow> 0 | Some s \<Rightarrow> s);
                            roadmap_data' = modify_task
                              (\<lambda>t. t\<lparr>t_assessment := Some (stored_assessment result_score n now),
                                      t_assessed := Some True, t_assessment_completed := Some True\<rparr>)
                              roadmap_data (st_phase_id req) (st_week_index req) (st_task_index req)
                        in case users_set_road_map w1 uid roadmap_data' of
                             (Inl e, w2) \<Rightarrow> (StoreError e, w2)
                           | (Inr _, w2) \<Rightarrow>
                               (case st_phase_id req of
                                  None \<Rightarrow> (StoreError KeyError, w2)
                                | Some pid \<Rightarrow>
                                    (case update_one w2 (uid, pid) (completed_update (st_day req) now) True of
                                       (Inl e, w3) \<Rightarrow> (StoreError e, w3)
                                     | (Inr _, w3) \<Rightarrow> (Stored, w3))))))))"

section \<open>The adaptation generator\<close>

text \<open>\<^verbatim>\<open>AdaptiveRoadmapManager._generate_adaptations\<close> of \<^verbatim>\<open>app/routes/roadmap.py\<close>.\<close>

record progress_analysis =
  learning_velocity :: string

record delay_analysis =
  risk_level :: string
  total_days_behind :: int

record adaptation =
  ad_type :: string
  ad_description :: string
  ad_adjustment :: string

record catch_up_plan =
  cu_type :: string
  cu_days_to_recover :: int
  cu_estimated_hours :: int

record adaptations =
  schedule_adjustments :: "adaptation list"
  content_modifications :: "adaptation list"
  difficulty_changes :: "adaptation list"
  timeline_extensions :: "adaptation list"
  catch_up_plans :: "catch_up_plan list"

definition extend_timeline :: adaptation where
  "extend_timeline = \<lparr>ad_type = ''extend_timeline'',
     ad_description = ''Extend daily learning time by 30 minutes'',
     ad_adjustment = ''timeline_extension''\<rparr>"

definition simplify_content :: adaptation where
  "simplify_content = \<lparr>ad_type = ''simplify_content'',
     ad_description = ''Focus on core concepts, reduce advanced topics'',
     ad_adjustment = ''content_simplification''\<rparr>"

definition increase_challenge :: adaptation where
  "increase_challenge = \<lparr>ad_type = ''increase_challenge'',
     ad_description = ''Add bonus challenges and advanced projects'',
     ad_adjustment = ''difficulty_increase''\<rparr>"

definition generate_adaptations :: "progress_analysis \<Rightarrow> delay_analysis \<Rightarrow> adaptations" where
  "generate_adaptations pa da =
     (let slow_or_risky = (learning_velocity pa = ''slow'' \<or> risk_level da \<in> set [''high'', ''critical''])
      in \<lparr>schedule_adjustments = (if slow_or_risky then [extend_timeline] else []),
          content_modifications = (if slow_or_risky then [simplify_content] else []),
          difficulty_changes =
            (if slow_or_risky then []
             else if learning_velocity pa = ''fast'' then [increase_challenge] else []),
          timeline_extensions = [],
          catch_up_plans =
            (if total_days_behind da > 0
             then [\<lparr>cu_type = ''weekend_intensive'', cu_days_to_recover = total_days_behind da,
                    cu_estimated_hours = total_days_behind da * 2\<rparr>]
             else [])\<rparr>)"

section \<open>Reading the stored state\<close>

text \<open>
  What the theorems below say about the curriculum document is said through these two
  readers: the task stored at a place of a learner's curriculum, and the attempt counter
  of its assessment (0 when there is none).
\<close>

definition stored_task :: "world \<Rightarrow> user_id \<Rightarrow> phase_key \<Rightarrow> int \<Rightarrow> int \<Rightarrow> task option" where
  "stored_task w uid pid week_index task_index =
     (case users w uid of
        None \<Rightarrow> None
      | Some u \<Rightarrow>
          (case road_map u of
             None \<Rightarrow> None
           | Some rm \<Rightarrow>
               (case locate_task rm (Some pid) week_index task_index of
                  Inl e \<Rightarrow> None
                | Inr t \<Rightarrow> Some t)))"

definition attempt_count :: "task \<Rightarrow> int" where
  "attempt_count t = (case t_assessment t of None \<Rightarrow> 0 | Some a \<Rightarrow> get_attempts a)"

section \<open>Scenarios\<close>

text \<open>
  Concrete states on which the operations are run below: one learner, one phase with one
  week of tasks, the curriculum either as the JSON array the generator writes or as a JSON
  object keyed by the phase identifier.
\<close>

definition scenario_doc :: "int list \<Rightarrow> int list \<Rightarrow> progress_doc" where
  "scenario_doc unlocked completed =
     \<lparr>pd_unlocked_days = Some unlocked, pd_completed_assessments = Some (map Day completed),
      pd_unlock_trigger = Some ''auto_sequential'', pd_created_at = Some 0, pd_updated_at = Some 1\<rparr>"

definition scenario_task :: "int \<Rightarrow> assessment option \<Rightarrow> task" where
  "scenario_task d a = \<lparr>t_day = Some (Day d), t_assessment = a, t_assessed = None,
     t_assessment_completed = None\<rparr>"

definition scenario_phase :: "task list \<Rightarrow> phase" where
  "scenario_phase ts =
     \<lparr>ph_learning_plan = Some \<lparr>weekly_schedule = Some [\<lparr>daily_tasks = Some ts\<rparr>]\<rparr>\<rparr>"

definition list_roadmap :: "task list \<Rightarrow> user" where
  "list_roadmap ts = \<lparr>road_map = Some \<lparr>phases = Some (PhaseList [scenario_phase ts])\<rparr>\<rparr>"

definition dict_roadmap :: "task list \<Rightarrow> user" where
  "dict_roadmap ts = \<lparr>road_map = Some \<lparr>phases = Some (PhaseDict
     (\<lambda>k. if k = ''0'' then Some (scenario_phase ts) else None))\<rparr>\<rparr>"

definition scenario :: "phase_key \<Rightarrow> progress_doc option \<Rightarrow> user option \<Rightarrow> bool list \<Rightarrow> world" where
  "scenario pid doc u fs =
     \<lparr>learning_progress = (\<lambda>k. if k = (''learner'', pid) then doc else None),
      users = (\<lambda>uid. if uid = ''learner'' then u else None),
      faults = fs\<rparr>"

definition passed_assessment :: "int \<Rightarrow> assessment" where
  "passed_assessment s = \<lparr>a_completed = Some True, a_score = Some s, a_status = Some ''passed'',
     a_attempts = Some 1, a_submitted_at = Some 0, a_completed_at = None\<rparr>"

definition failed_assessment :: "int \<Rightarrow> int \<Rightarrow> assessment" where
  "failed_assessment s n = \<lparr>a_completed = Some False, a_score = Some s, a_status = Some ''failed'',
     a_attempts = Some n, a_submitted_at = Some 0, a_completed_at = None\<rparr>"

definition theory_request :: "int \<Rightarrow> unit submit_request" where
  "theory_request d = \<lparr>sr_phase_id = Some (IntKey 0), sr_day = Day d, sr_week_index = 0,
     sr_task_index = 0, sr_assessment_type = ''theory'',
     sr_assessment_answers = [(''q1'', ''an answer'')], sr_day_content = ()\<rparr>"

definition scoring :: "int \<Rightarrow> answers \<Rightarrow> unit \<Rightarrow> evaluation" where
  "scoring s user_answers day_content = \<lparr>ev_score = Some s\<rparr>"

definition first_day_world :: world where
  "first_day_world = scenario (IntKey 0) (Some (scenario_doc [1] []))
     (Some (list_roadmap [scenario_task 1 None])) []"

definition retry_world :: world where
  "retry_world = scenario (IntKey 0) (Some (scenario_doc [1] []))
     (Some (list_roadmap [scenario_task 1 (Some (failed_assessment 40 1))])) []"

text \<open>
  A progress record that has drifted (three days unlocked, none completed) beside a
  curriculum, in the array layout, in which day 1 is passed.
\<close>

definition drift_world :: world where
  "drift_world = scenario (IntKey 0) (Some (scenario_doc [1, 2, 3] []))
     (Some (list_roadmap [scenario_task 1 (Some (passed_assessment 85))])) []"

text \<open>A progress record to which a request without a day has been added.\<close>

definition null_day_world :: world where
  "null_day_world = scenario (IntKey 0)
     (Some ((scenario_doc [1, 2] [1])\<lparr>pd_completed_assessments := Some [Day 1, Null]\<rparr>)) None []"

definition store_request_40 :: store_request where
  "store_request_40 = \<lparr>st_phase_id = Some (IntKey 0), st_day = Day 1, st_week_index = 0,
     st_task_index = 0, st_assessment_result = Some \<lparr>ar_score = Some 40\<rparr>\<rparr>"

section \<open>Properties of the unlock manager\<close>

lemma add_sequential_set:
  "set (add_sequential limit unlocked ds) = set unlocked \<union> {d + 1 | d. d \<in> set ds \<and> limit (d + 1)}"
  by (induction ds arbitrary: unlocked) (auto simp: Let_def)

lemma integer_days_Some: "integer_days vs = Some ds \<Longrightarrow> vs = map Day ds"
  by (induction vs arbitrary: ds rule: integer_days.induct) (auto split: option.splits)

lemma integer_days_map [simp]: "integer_days (map Day ds) = Some ds"
  by (induction ds) auto

lemma evaluate_unlocked_set:
  assumes "evaluate_unlock_conditions w uid pid progress now = (Inr st, w')"
  shows "\<exists>cs. completed_assessments st = Some cs \<and>
     set (unlocked_days st) = insert 1 {d + 1 | d. d \<in> set cs \<and> d + 1 \<le> 30}"
  using assms unfolding evaluate_unlock_conditions_def
  by (auto simp: Let_def add_sequential_set split: prod.splits if_splits option.splits)

text \<open>The only exception that leaves the evaluation is the \<^verbatim>\<open>TypeError\<close> of a day that is no integer.\<close>

lemma evaluate_unlock_conditions_raises:
  assumes "evaluate_unlock_conditions w uid pid progress now = (Inl e, w')"
  shows "e = TypeError"
  using assms unfolding evaluate_unlock_conditions_def
  by (auto simp: Let_def split: prod.splits if_splits option.splits)

lemma body_ok:
  assumes "check_unlock_status_body w uid pid now = (Inr st, w')"
  shows "\<exists>w1 progress. evaluate_unlock_conditions w1 uid pid progress now = (Inr st, w')"
  using assms unfolding check_unlock_status_body_def
  by (auto split: prod.splits sum.splits option.splits)

lemma check_cases:
  "fst (check_unlock_status w uid pid now) = default_status
   \<or> (\<exists>w1 progress. evaluate_unlock_conditions w1 uid pid progress now
         = (Inr (fst (check_unlock_status w uid pid now)), snd (check_unlock_status w uid pid now)))"
proof (cases "check_unlock_status_body w uid pid now")
  case (Pair r w')
  show ?thesis
  proof (cases r)
    case (Inl e)
    with Pair show ?thesis by (simp add: check_unlock_status_def)
  next
    case (Inr st)
    with Pair have c: "check_unlock_status w uid pid now = (st, w')"
      by (simp add: check_unlock_status_def)
    from Pair Inr body_ok[of w uid pid now st w'] obtain w1 progress
      where "evaluate_unlock_conditions w1 uid pid progress now = (Inr st, w')" by auto
    with c show ?thesis by auto
  qed
qed

lemma check_unlocked_set:
  "set (unlocked_days (fst (check_unlock_status w uid pid now))) =
     insert 1 {d + 1 | d. d \<in> set (get_list (completed_assessments (fst (check_unlock_status w uid pid now)))) \<and> d + 1 \<le> 30}"
proof -
  from check_cases[of w uid pid now] show ?thesis
  proof
    assume "fst (check_unlock_status w uid pid now) = default_status"
    then show ?thesis by (simp add: default_status_def get_list_def)
  next
    assume "\<exists>w1 progress. evaluate_unlock_conditions w1 uid pid progress now
         = (Inr (fst (check_unlock_status w uid pid now)), snd (check_unlock_status w uid pid now))"
    then obtain w1 progress where e: "evaluate_unlock_conditions w1 uid pid progress now
         = (Inr (fst (check_unlock_status w uid pid now)), snd (check_unlock_status w uid pid now))"
      by blast
    from evaluate_unlocked_set[OF e] show ?thesis by (auto simp: get_list_def)
  qed
qed

text \<open>
  Claim C3. For every learner and every phase, whatever the state of the store and whatever
  storage calls fail, the status returned by \<^verbatim>\<open>check_unlock_status\<close> has day 1 among its
  unlocked days: on the first call (the progress document is created), on every later
  call, and when the body raises and the default record is returned.
\<close>

theorem check_unlock_status_day_one:
  "1 \<in> set (unlocked_days (fst (check_unlock_status w uid pid now)))"
  by (subst check_unlocked_set) simp


text \<open>
  What raises in the body: a failing \<^verbatim>\<open>find_one\<close>, a failing \<^verbatim>\<open>insert_one\<close> of the first
  call, and the evaluation of a completed day that is no integer.
\<close>

lemma check_unlock_status_body_raises:
  "(\<exists>e. fst (check_unlock_status_body w uid pid now) = Inl e) \<longleftrightarrow>
     (case find_one w (uid, pid) of
        (Inl e, w1) \<Rightarrow> True
      | (Inr (Some progress), w1) \<Rightarrow>
          fst (evaluate_unlock_conditions w1 uid pid progress now) = Inl TypeError
      | (Inr None, w1) \<Rightarrow>
          (case insert_one w1 (uid, pid) (initial_doc now) of
             (Inl e, w2) \<Rightarrow> True
           | (Inr u, w2) \<Rightarrow> False))"
proof -
  have init: "\<And>w2. \<exists>st w3. evaluate_unlock_conditions w2 uid pid (initial_doc now) now = (Inr st, w3)"
    by (simp add: evaluate_unlock_conditions_def initial_doc_def get_list_def get_days_def Let_def
          split: prod.splits)
  have ty: "\<And>w1 progress e. fst (evaluate_unlock_conditions w1 uid pid progress now) = Inl e
      \<Longrightarrow> e = TypeError"
    using evaluate_unlock_conditions_raises by (metis prod.collapse)
  obtain r w1 where f: "find_one w (uid, pid) = (r, w1)" by (cases "find_one w (uid, pid)")
  show ?thesis
  proof (cases r)
    case (Inl e)
    with f show ?thesis by (simp add: check_unlock_status_body_def)
  next
    case (Inr po)
    show ?thesis
    proof (cases po)
      case (Some progress)
      with Inr f ty[of w1 progress] show ?thesis
        by (auto simp: check_unlock_status_body_def)
    next
      case None
      obtain ri w2 where i: "insert_one w1 (uid, pid) (initial_doc now) = (ri, w2)"
        by (cases "insert_one w1 (uid, pid) (initial_doc now)")
      from init[of w2] obtain st w3 where
        "evaluate_unlock_conditions w2 uid pid (initial_doc now) now = (Inr st, w3)" by blast
      with None Inr f i show ?thesis
        by (cases ri) (simp_all add: check_unlock_status_body_def)
    qed
  qed
qed


lemma db_fault_none [simp]: "faults w = [] \<Longrightarrow> db_fault w = (False, w)"
  by (simp add: db_fault_def)

lemma reset_no_fault:
  assumes "faults w = []" and "reset_unlock_status w uid pid now = (r, w')"
  shows "faults w' = [] \<and> users w' = users w \<and>
    (case r of
       ResetError e \<Rightarrow> w' = w
     | ResetSuccess bc cu \<Rightarrow>
         (\<exists>doc. learning_progress w' (uid, pid) = Some doc \<and>
            pd_unlocked_days doc = Some cu \<and> pd_completed_assessments doc = Some (map Day bc)))"
  using assms unfolding reset_unlock_status_def get_user_by_id_def update_one_def reset_update_def
  by (auto simp: Let_def split: option.splits sum.splits)

lemma update_progress_no_fault:
  assumes "faults w = []"
  shows "faults (update_progress w uid pid xs trig now) = [] \<and>
     users (update_progress w uid pid xs trig now) = users w \<and>
     (\<exists>doc. learning_progress (update_progress w uid pid xs trig now) (uid, pid) = Some doc
        \<and> pd_unlocked_days doc = Some xs
        \<and> pd_completed_assessments doc =
            (case learning_progress w (uid, pid) of None \<Rightarrow> None | Some d \<Rightarrow> pd_completed_assessments d))"
  using assms unfolding update_progress_def update_one_def progress_update_def empty_doc_def
  by (auto split: option.splits)

lemma evaluate_persisted:
  assumes nf: "faults w = []"
    and doc: "learning_progress w (uid, pid) = Some progress"
    and ev: "evaluate_unlock_conditions w uid pid progress now = (Inr st, w')"
  shows "\<exists>doc. learning_progress w' (uid, pid) = Some doc \<and>
           get_list (pd_unlocked_days doc) = unlocked_days st \<and>
           integer_days (get_days (pd_completed_assessments doc)) = completed_assessments st"
proof -
  define u0 where "u0 = get_list (pd_unlocked_days progress)"
  define c0 where "c0 = get_days (pd_completed_assessments progress)"
  define r1 where "r1 =
            (if length u0 > length c0 + 1
             then (case reset_unlock_status w uid pid now of
                     (ResetSuccess bc cu, w') \<Rightarrow> (cu, map Day bc, w')
                   | (ResetError e, w') \<Rightarrow> (u0, c0, w'))
             else (u0, c0, w))"
  obtain u1 c1 w1 where s1: "r1 = (u1, c1, w1)" by (cases r1)
  have i1: "faults w1 = [] \<and> (\<exists>d. learning_progress w1 (uid, pid) = Some d \<and>
      get_list (pd_unlocked_days d) = u1 \<and> get_days (pd_completed_assessments d) = c1)"
  proof (cases "length u0 > length c0 + 1")
    case False
    with s1 nf doc show ?thesis by (simp add: r1_def u0_def c0_def)
  next
    case True
    obtain r wr where r: "reset_unlock_status w uid pid now = (r, wr)"
      by (cases "reset_unlock_status w uid pid now")
    from reset_no_fault[OF nf r] True s1 r nf doc show ?thesis
      by (cases r) (auto simp: get_list_def get_days_def r1_def u0_def c0_def)
  qed
  define r2 where "r2 =
            (if u1 = [] \<or> 1 \<notin> set u1
             then ([1], update_progress w1 uid pid [1] ''first_unlock'' now)
             else (u1, w1))"
  obtain u2 w2 where s2: "r2 = (u2, w2)" by (cases r2)
  have i2: "faults w2 = [] \<and> (\<exists>d. learning_progress w2 (uid, pid) = Some d \<and>
      get_list (pd_unlocked_days d) = u2 \<and> get_days (pd_completed_assessments d) = c1)"
  proof (cases "u1 = [] \<or> 1 \<notin> set u1")
    case False
    with s2 i1 show ?thesis by (simp add: r2_def)
  next
    case True
    from i1 have f: "faults w1 = []" by simp
    from update_progress_no_fault[OF f, of uid pid "[1]" "''first_unlock''" now] True s2 i1
    show ?thesis by (auto simp: get_list_def get_days_def r2_def)
  qed
  have unfolded: "evaluate_unlock_conditions w uid pid progress now =
     (case integer_days c1 of
           None \<Rightarrow> (Inl TypeError, w2)
         | Some completed \<Rightarrow>
             (let correct_unlocked = add_sequential (\<lambda>n. n \<le> 30) [1] (sort completed);
                  (unlocked3, w3) =
                    (if set u2 \<noteq> set correct_unlocked
                     then (sort correct_unlocked,
                           update_progress w2 uid pid (sort correct_unlocked) ''corrected'' now)
                     else (u2, w2))
              in (Inr \<lparr>unlocked_days = unlocked3, completed_assessments = Some completed,
                       current_day = find_current_day unlocked3 completed,
                       unlock_trigger =
                         (case pd_unlock_trigger progress of None \<Rightarrow> ''sequential'' | Some t \<Rightarrow> t)\<rparr>,
                  w3)))"
    unfolding evaluate_unlock_conditions_def
    unfolding Let_def[of "get_list (pd_unlocked_days progress)"]
       Let_def[of "get_days (pd_completed_assessments progress)"]
    unfolding u0_def[symmetric] c0_def[symmetric]
    unfolding r1_def[symmetric] s1 prod.case Let_def[of "(u1, c1, w1)"]
    unfolding r2_def[symmetric] s2 prod.case Let_def[of "(u2, w2)"]
    by (rule refl)
  from ev unfolded obtain cs where cs: "integer_days c1 = Some cs"
    by (cases "integer_days c1") auto
  define cu where "cu = add_sequential (\<lambda>n. n \<le> 30) [1] (sort cs)"
  define r3 where "r3 =
            (if set u2 \<noteq> set cu
             then (sort cu, update_progress w2 uid pid (sort cu) ''corrected'' now)
             else (u2, w2))"
  obtain u3 w3 where s3: "r3 = (u3, w3)" by (cases r3)
  have i3: "faults w3 = [] \<and> (\<exists>d. learning_progress w3 (uid, pid) = Some d \<and>
      get_list (pd_unlocked_days d) = u3 \<and> get_days (pd_completed_assessments d) = c1)"
  proof (cases "set u2 \<noteq> set cu")
    case False
    with s3 i2 show ?thesis by (simp add: r3_def)
  next
    case True
    from i2 have f: "faults w2 = []" by simp
    from update_progress_no_fault[OF f, of uid pid "sort cu" "''corrected''" now] True s3 i2
    show ?thesis by (auto simp: get_list_def get_days_def r3_def)
  qed
  have "evaluate_unlock_conditions w uid pid progress now =
     (Inr \<lparr>unlocked_days = u3, completed_assessments = Some cs,
           current_day = find_current_day u3 cs,
           unlock_trigger = (case pd_unlock_trigger progress of None \<Rightarrow> ''sequential'' | Some t \<Rightarrow> t)\<rparr>, w3)"
    unfolding unfolded cs option.case Let_def[of "add_sequential (\<lambda>n. n \<le> 30) [1] (sort cs)"]
    unfolding cu_def[symmetric]
    unfolding r3_def[symmetric] s3 prod.case Let_def[of "(u3, w3)"]
    by (rule refl)
  with ev i3 cs show ?thesis by auto
qed


lemma set_eq_list_all:
  "set xs = set ys \<longleftrightarrow> list_all (\<lambda>x. x \<in> set ys) xs \<and> list_all (\<lambda>y. y \<in> set xs) ys"
  by (auto simp: list_all_iff)

lemmas status_defs = check_unlock_status_def check_unlock_status_body_def find_one_def db_fault_def
    insert_one_def evaluate_unlock_conditions_def initial_doc_def get_list_def get_days_def
    update_progress_def update_one_def find_current_day_def reset_unlock_status_def
    get_user_by_id_def progress_update_def empty_doc_def default_status_def scenario_def
    scenario_doc_def Let_def

lemma check_persisted:
  assumes nf: "faults w = []"
    and ok: "completed_assessments (fst (check_unlock_status w uid pid now)) \<noteq> None"
  shows "\<exists>doc. learning_progress (snd (check_unlock_status w uid pid now)) (uid, pid) = Some doc \<and>
           get_list (pd_unlocked_days doc) = unlocked_days (fst (check_unlock_status w uid pid now)) \<and>
           integer_days (get_days (pd_completed_assessments doc)) =
             completed_assessments (fst (check_unlock_status w uid pid now))"
proof (cases "learning_progress w (uid, pid)")
  case (Some progress)
  obtain r w' where ev: "evaluate_unlock_conditions w uid pid progress now = (r, w')"
    by (cases "evaluate_unlock_conditions w uid pid progress now")
  from nf Some ev have c: "check_unlock_status w uid pid now =
      (case r of Inl e \<Rightarrow> (default_status, w') | Inr st \<Rightarrow> (st, w'))"
    by (simp add: check_unlock_status_def check_unlock_status_body_def find_one_def)
  show ?thesis
  proof (cases r)
    case (Inl e)
    with c ok show ?thesis by (simp add: default_status_def)
  next
    case (Inr st)
    with evaluate_persisted[OF nf Some ev[unfolded Inr]] c show ?thesis by simp
  qed
next
  case None
  define w1 where "w1 = w\<lparr>learning_progress := (learning_progress w)((uid, pid) \<mapsto> initial_doc now)\<rparr>"
  have nf1: "faults w1 = []" and d1: "learning_progress w1 (uid, pid) = Some (initial_doc now)"
    using nf by (simp_all add: w1_def)
  obtain r w' where ev: "evaluate_unlock_conditions w1 uid pid (initial_doc now) now = (r, w')"
    by (cases "evaluate_unlock_conditions w1 uid pid (initial_doc now) now")
  from nf None ev have c: "check_unlock_status w uid pid now =
      (case r of Inl e \<Rightarrow> (default_status, w') | Inr st \<Rightarrow> (st, w'))"
    by (simp add: check_unlock_status_def check_unlock_status_body_def find_one_def insert_one_def w1_def)
  show ?thesis
  proof (cases r)
    case (Inl e)
    with c ok show ?thesis by (simp add: default_status_def)
  next
    case (Inr st)
    with evaluate_persisted[OF nf1 d1 ev[unfolded Inr]] c show ?thesis by simp
  qed
qed

text \<open>
  Claim C2, as the code has it. The unlocked days returned by \<^verbatim>\<open>check_unlock_status\<close> are
  exactly day 1 and the successors, up to day 30, of the returned completed days (none in
  the default record). So the successor of a completed day is unlocked when it is at most
  30, and a completed day is itself unlocked when it is day 1 or the successor of another
  completed day. When no storage call fails and the call returns its completed days (it
  has not fallen back to the default record), the stored progress document holds the same
  two lists.
\<close>

theorem check_unlock_status_unlocked_exactly:
  "set (unlocked_days (fst (check_unlock_status w uid pid now))) =
     insert 1 {d + 1 | d.
       d \<in> set (get_list (completed_assessments (fst (check_unlock_status w uid pid now)))) \<and> d + 1 \<le> 30}
   \<and> (faults w = [] \<and> completed_assessments (fst (check_unlock_status w uid pid now)) \<noteq> None \<longrightarrow>
        (\<exists>doc. learning_progress (snd (check_unlock_status w uid pid now)) (uid, pid) = Some doc \<and>
           get_list (pd_unlocked_days doc) = unlocked_days (fst (check_unlock_status w uid pid now)) \<and>
           integer_days (get_days (pd_completed_assessments doc)) =
             completed_assessments (fst (check_unlock_status w uid pid now))))"
  using check_unlocked_set[of w uid pid now] check_persisted[of w uid pid now] by blast

theorem check_unlock_status_unlocked_exactly_witness:
  "set (unlocked_days (fst (check_unlock_status
       (scenario (IntKey 0) (Some (scenario_doc [1, 2] [1])) None []) ''learner'' (IntKey 0) 7))) = {1, 2}
   \<and> completed_assessments (fst (check_unlock_status
       (scenario (IntKey 0) (Some (scenario_doc [1, 2] [1])) None []) ''learner'' (IntKey 0) 7)) = Some [1]
   \<and> learning_progress (snd (check_unlock_status
       (scenario (IntKey 0) (Some (scenario_doc [1, 2] [1])) None []) ''learner'' (IntKey 0) 7))
       (''learner'', IntKey 0) = Some (scenario_doc [1, 2] [1])"
  using check_unlock_status_unlocked_exactly
    [of "scenario (IntKey 0) (Some (scenario_doc [1, 2] [1])) None []" "''learner''" "IntKey 0" 7]
  by (simp add: status_defs set_eq_list_all)

text \<open>
  The claim as the specification words it fails twice. With days 29 and 30 completed, day 31
  is not unlocked (the limit of 30); with day 3 completed and day 2 not, day 3 is not
  unlocked.
\<close>

theorem check_unlock_status_sequential_counterexample:
  "completed_assessments (fst (check_unlock_status
       (scenario (IntKey 0) (Some (scenario_doc [1, 30, 31] [29, 30])) None []) ''learner'' (IntKey 0) 7))
     = Some [29, 30]
   \<and> 31 \<notin> set (unlocked_days (fst (check_unlock_status
       (scenario (IntKey 0) (Some (scenario_doc [1, 30, 31] [29, 30])) None []) ''learner'' (IntKey 0) 7)))
   \<and> completed_assessments (fst (check_unlock_status
       (scenario (IntKey 0) (Some (scenario_doc [1, 4] [3])) None []) ''learner'' (IntKey 0) 7))
     = Some [3]
   \<and> 3 \<notin> set (unlocked_days (fst (check_unlock_status
       (scenario (IntKey 0) (Some (scenario_doc [1, 4] [3])) None []) ''learner'' (IntKey 0) 7)))"
  by (simp add: status_defs set_eq_list_all)

text \<open>
  A completed day that is no integer: a request without a day has added \<^verbatim>\<open>null\<close> to the
  completed assessments. No storage call fails, the evaluation raises \<^verbatim>\<open>TypeError\<close>, the
  default record is returned, and the stored record keeps its own lists.
\<close>

lemma check_unlock_status_null_day:
  "check_unlock_status_body null_day_world ''learner'' (IntKey 0) 7 = (Inl TypeError, null_day_world)
   \<and> check_unlock_status null_day_world ''learner'' (IntKey 0) 7 = (default_status, null_day_world)
   \<and> map_option pd_unlocked_days (learning_progress null_day_world (''learner'', IntKey 0))
       = Some (Some [1, 2])"
  by (simp add: status_defs null_day_world_def)


theorem check_unlock_status_day_one_witness:
  "unlocked_days (fst (check_unlock_status (scenario (IntKey 0) None None []) ''learner'' (IntKey 0) 7)) = [1]
   \<and> 1 \<in> set (unlocked_days (fst (check_unlock_status (scenario (IntKey 0) None None []) ''learner'' (IntKey 0) 7)))"
  using check_unlock_status_day_one [of "scenario (IntKey 0) None None []" "''learner''" "IntKey 0" 7]
  by (simp add: status_defs)

section \<open>Properties of the adaptation generator\<close>

text \<open>
  Claim C8, as the code has it. The branch for a fast learner is the \<^verbatim>\<open>elif\<close> of the branch
  for a slow learner or a high or critical risk. With a fast velocity and a risk level that
  is neither \<^verbatim>\<open>high\<close> nor \<^verbatim>\<open>critical\<close>, the difficulty changes are the single
  \<^verbatim>\<open>increase_challenge\<close> entry and there is no schedule adjustment and no content
  modification; with a fast velocity and a high or critical risk, the schedule adjustments
  are the \<^verbatim>\<open>extend_timeline\<close> entry, the content modifications the \<^verbatim>\<open>simplify_content\<close>
  entry, and there is no difficulty change.
\<close>

theorem generate_adaptations_fast:
  assumes "learning_velocity pa = ''fast''"
  shows "difficulty_changes (generate_adaptations pa da) =
           (if risk_level da = ''high'' \<or> risk_level da = ''critical'' then [] else [increase_challenge])
       \<and> schedule_adjustments (generate_adaptations pa da) =
           (if risk_level da = ''high'' \<or> risk_level da = ''critical'' then [extend_timeline] else [])
       \<and> content_modifications (generate_adaptations pa da) =
           (if risk_level da = ''high'' \<or> risk_level da = ''critical'' then [simplify_content] else [])"
  using assms by (simp add: generate_adaptations_def)

theorem generate_adaptations_fast_witness:
  "learning_velocity \<lparr>learning_velocity = ''fast''\<rparr> = ''fast''
   \<and> difficulty_changes (generate_adaptations \<lparr>learning_velocity = ''fast''\<rparr>
         \<lparr>risk_level = ''low'', total_days_behind = 0\<rparr>) = [increase_challenge]
   \<and> ad_type (hd (difficulty_changes (generate_adaptations \<lparr>learning_velocity = ''fast''\<rparr>
         \<lparr>risk_level = ''low'', total_days_behind = 0\<rparr>))) = ''increase_challenge''
   \<and> schedule_adjustments (generate_adaptations \<lparr>learning_velocity = ''fast''\<rparr>
         \<lparr>risk_level = ''low'', total_days_behind = 0\<rparr>) = []
   \<and> difficulty_changes (generate_adaptations \<lparr>learning_velocity = ''fast''\<rparr>
         \<lparr>risk_level = ''critical'', total_days_behind = 9\<rparr>) = []
   \<and> schedule_adjustments (generate_adaptations \<lparr>learning_velocity = ''fast''\<rparr>
         \<lparr>risk_level = ''critical'', total_days_behind = 9\<rparr>) = [extend_timeline]
   \<and> content_modifications (generate_adaptations \<lparr>learning_velocity = ''fast''\<rparr>
         \<lparr>risk_level = ''critical'', total_days_behind = 9\<rparr>) = [simplify_content]"
  using generate_adaptations_fast
    [of "\<lparr>learning_velocity = ''fast''\<rparr>" "\<lparr>risk_level = ''low'', total_days_behind = 0\<rparr>"]
    generate_adaptations_fast
    [of "\<lparr>learning_velocity = ''fast''\<rparr>" "\<lparr>risk_level = ''critical'', total_days_behind = 9\<rparr>"]
  by (simp add: increase_challenge_def)

text \<open>
  A fast learner who is five days behind (risk \<^verbatim>\<open>high\<close>) gets the timeline extension and the
  simplified content, and no difficulty change.
\<close>

theorem generate_adaptations_fast_counterexample:
  "difficulty_changes (generate_adaptations \<lparr>learning_velocity = ''fast''\<rparr>
      \<lparr>risk_level = ''high'', total_days_behind = 5\<rparr>) = []
   \<and> schedule_adjustments (generate_adaptations \<lparr>learning_velocity = ''fast''\<rparr>
      \<lparr>risk_level = ''high'', total_days_behind = 5\<rparr>) = [extend_timeline]
   \<and> content_modifications (generate_adaptations \<lparr>learning_velocity = ''fast''\<rparr>
      \<lparr>risk_level = ''high'', total_days_behind = 5\<rparr>) = [simplify_content]"
  by (simp add: generate_adaptations_def)

section \<open>Properties of reset_unlock_status\<close>

lemma reset_unlock_status_no_fault:
  assumes "faults w = []"
  shows "reset_unlock_status w uid pid now =
     (case users w uid of
        None \<Rightarrow> (ResetError AttributeError, w)
      | Some u \<Rightarrow>
          (case phases_get (case road_map u of None \<Rightarrow> \<lparr>phases = None\<rparr> | Some rm \<Rightarrow> rm) pid of
             Inl e \<Rightarrow> (ResetError e, w)
           | Inr ph \<Rightarrow>
               (case integer_days (actually_completed (get_weekly_schedule ph)) of
                  None \<Rightarrow> (ResetError TypeError, w)
                | Some completed \<Rightarrow>
                    (ResetSuccess completed (add_sequential (\<lambda>n. True) [1] (sort completed)),
                     w\<lparr>learning_progress := (learning_progress w)((uid, pid) \<mapsto>
                          reset_update (add_sequential (\<lambda>n. True) [1] (sort completed)) completed now
                            (case learning_progress w (uid, pid) of None \<Rightarrow> empty_doc | Some d \<Rightarrow> d))\<rparr>))))"
  using assms unfolding reset_unlock_status_def get_user_by_id_def update_one_def
  by (auto simp: Let_def split: option.splits sum.splits)

lemma reset_update_twice:
  "reset_update u c t2 (reset_update u c t1 d) = reset_update u c t2 d"
  by (simp add: reset_update_def)

text \<open>
  Claim C7. With the curriculum document fixed and no storage call failing, a second
  \<^verbatim>\<open>reset_unlock_status\<close> for the same learner and phase returns what the first returned, and
  the store after the two calls is the store that the second call alone would have left
  (the record carries the time of the last call in \<^verbatim>\<open>updated_at\<close>).
\<close>

theorem reset_unlock_status_idempotent:
  assumes "faults w = []"
  shows "fst (reset_unlock_status (snd (reset_unlock_status w uid pid t1)) uid pid t2)
           = fst (reset_unlock_status w uid pid t1)
       \<and> snd (reset_unlock_status (snd (reset_unlock_status w uid pid t1)) uid pid t2)
           = snd (reset_unlock_status w uid pid t2)"
proof (cases "users w uid")
  case None
  with assms show ?thesis by (simp add: reset_unlock_status_no_fault)
next
  case (Some u)
  show ?thesis
  proof (cases "phases_get (case road_map u of None \<Rightarrow> \<lparr>phases = None\<rparr> | Some rm \<Rightarrow> rm) pid")
    case (Inl e)
    with Some assms show ?thesis by (simp add: reset_unlock_status_no_fault)
  next
    case (Inr ph)
    show ?thesis
    proof (cases "integer_days (actually_completed (get_weekly_schedule ph))")
      case None
      with Inr Some assms show ?thesis by (simp add: reset_unlock_status_no_fault)
    next
      case (Some completed)
      with Inr \<open>users w uid = Some u\<close> assms show ?thesis
        by (simp add: reset_unlock_status_no_fault reset_update_twice)
    qed
  qed
qed

lemmas reset_defs = reset_unlock_status_def get_user_by_id_def db_fault_def phases_get_def
    get_weekly_schedule_def actually_completed_def get_daily_tasks_def assessment_passed_def
    task_day_def update_one_def reset_update_def empty_doc_def empty_phase_def
    scenario_def scenario_doc_def scenario_task_def scenario_phase_def dict_roadmap_def
    list_roadmap_def passed_assessment_def Let_def

theorem reset_unlock_status_idempotent_witness:
  "fst (reset_unlock_status
      (scenario (StrKey ''0'') None
         (Some (dict_roadmap [scenario_task 1 (Some (passed_assessment 85)), scenario_task 2 None])) [])
      ''learner'' (StrKey ''0'') 5) = ResetSuccess [1] [1, 2]
   \<and> fst (reset_unlock_status (snd (reset_unlock_status
      (scenario (StrKey ''0'') None
         (Some (dict_roadmap [scenario_task 1 (Some (passed_assessment 85)), scenario_task 2 None])) [])
      ''learner'' (StrKey ''0'') 5)) ''learner'' (StrKey ''0'') 9) = ResetSuccess [1] [1, 2]
   \<and> snd (reset_unlock_status (snd (reset_unlock_status
      (scenario (StrKey ''0'') None
         (Some (dict_roadmap [scenario_task 1 (Some (passed_assessment 85)), scenario_task 2 None])) [])
      ''learner'' (StrKey ''0'') 5)) ''learner'' (StrKey ''0'') 9)
     = snd (reset_unlock_status
      (scenario (StrKey ''0'') None
         (Some (dict_roadmap [scenario_task 1 (Some (passed_assessment 85)), scenario_task 2 None])) [])
      ''learner'' (StrKey ''0'') 9)"
proof -
  have nf: "faults (scenario (StrKey ''0'') None
         (Some (dict_roadmap [scenario_task 1 (Some (passed_assessment 85)), scenario_task 2 None])) []) = []"
    by (simp add: scenario_def)
  have first: "fst (reset_unlock_status
      (scenario (StrKey ''0'') None
         (Some (dict_roadmap [scenario_task 1 (Some (passed_assessment 85)), scenario_task 2 None])) [])
      ''learner'' (StrKey ''0'') 5) = ResetSuccess [1] [1, 2]"
    by (simp add: reset_defs)
  from reset_unlock_status_idempotent[OF nf, of "''learner''" "StrKey ''0''" 5 9] first
  show ?thesis by simp
qed

text \<open>
  What a successful rebuild leaves: the completed days are the day numbers of the tasks of
  the phase that the lookup has found whose assessment is completed with a score of at
  least 70, and the unlocked days are day 1 and every successor of a completed day.
\<close>

lemma reset_unlock_status_rebuild:
  assumes nf: "faults w = []"
    and ok: "reset_unlock_status w uid pid now = (ResetSuccess bc cu, w')"
  shows "set cu = insert 1 {d + 1 | d. d \<in> set bc}
       \<and> (\<exists>u ph. users w uid = Some u
            \<and> phases_get (case road_map u of None \<Rightarrow> \<lparr>phases = None\<rparr> | Some rm \<Rightarrow> rm) pid = Inr ph
            \<and> map task_day (filter assessment_passed (concat (map get_daily_tasks (get_weekly_schedule ph))))
                = map Day bc)
       \<and> (\<exists>doc. learning_progress w' (uid, pid) = Some doc
            \<and> pd_unlocked_days doc = Some cu \<and> pd_completed_assessments doc = Some (map Day bc))"
proof (cases "users w uid")
  case None
  with nf ok show ?thesis by (simp add: reset_unlock_status_no_fault)
next
  case (Some u)
  show ?thesis
  proof (cases "phases_get (case road_map u of None \<Rightarrow> \<lparr>phases = None\<rparr> | Some rm \<Rightarrow> rm) pid")
    case (Inl e)
    with Some nf ok show ?thesis by (simp add: reset_unlock_status_no_fault)
  next
    case (Inr ph)
    show ?thesis
    proof (cases "integer_days (actually_completed (get_weekly_schedule ph))")
      case None
      with Inr Some nf ok show ?thesis by (simp add: reset_unlock_status_no_fault)
    next
      case (Some completed)
      from integer_days_Some[OF Some]
      have days: "actually_completed (get_weekly_schedule ph) = map Day completed" .
      from Some Inr \<open>users w uid = Some u\<close> nf ok
      have r: "bc = completed" "cu = add_sequential (\<lambda>n. True) [1] (sort completed)"
        and w': "w' = w\<lparr>learning_progress := (learning_progress w)((uid, pid) \<mapsto>
                          reset_update (add_sequential (\<lambda>n. True) [1] (sort completed)) completed now
                            (case learning_progress w (uid, pid) of None \<Rightarrow> empty_doc | Some d \<Rightarrow> d))\<rparr>"
        by (auto simp: reset_unlock_status_no_fault)
      from r have "set cu = insert 1 {d + 1 | d. d \<in> set bc}"
        by (auto simp: add_sequential_set)
      moreover from days r Inr \<open>users w uid = Some u\<close>
      have "\<exists>u ph. users w uid = Some u
            \<and> phases_get (case road_map u of None \<Rightarrow> \<lparr>phases = None\<rparr> | Some rm \<Rightarrow> rm) pid = Inr ph
            \<and> map task_day (filter assessment_passed (concat (map get_daily_tasks (get_weekly_schedule ph))))
                = map Day bc"
        by (auto simp: actually_completed_def)
      moreover from w' r have "\<exists>doc. learning_progress w' (uid, pid) = Some doc
            \<and> pd_unlocked_days doc = Some cu \<and> pd_completed_assessments doc = Some (map Day bc)"
        by (simp add: reset_update_def)
      ultimately show ?thesis by blast
    qed
  qed
qed

text \<open>
  The lookup of the phase, \<^verbatim>\<open>roadmap_data.get('phases', {}).get(phase_id, {})\<close>, takes the
  phases for a JSON object. The curriculum generator writes them as a JSON array, and so
  do the other routes read them (\<^verbatim>\<open>roadmap_data['phases'][phase_id]\<close>). On the array the method
  raises before its loop, for every phase identifier, and the store is left as it was.
\<close>

lemma reset_unlock_status_on_array:
  assumes "faults w = []" and "users w uid = Some u" and "road_map u = Some rm"
    and "phases rm = Some (PhaseList ps)"
  shows "reset_unlock_status w uid pid now = (ResetError AttributeError, w)"
  using assms by (simp add: reset_unlock_status_no_fault phases_get_def)

text \<open>
  So on the array layout the reconciliation of \<^verbatim>\<open>check_unlock_status\<close> rebuilds nothing from
  the curriculum: the completed days it returns are those of the stored progress record,
  whatever assessments the curriculum holds.
\<close>

lemma check_unlock_status_on_array:
  assumes nf: "faults w = []" and u: "users w uid = Some u" and rm: "road_map u = Some rm"
    and ps: "phases rm = Some (PhaseList ps)"
    and doc: "learning_progress w (uid, pid) = Some progress"
  shows "completed_assessments (fst (check_unlock_status w uid pid now))
           = integer_days (get_days (pd_completed_assessments progress))"
proof -
  have reset: "reset_unlock_status w uid pid now = (ResetError AttributeError, w)"
    using nf u rm ps by (rule reset_unlock_status_on_array)
  obtain r w' where ev: "evaluate_unlock_conditions w uid pid progress now = (r, w')"
    by (cases "evaluate_unlock_conditions w uid pid progress now")
  from nf doc ev have c: "check_unlock_status w uid pid now =
      (case r of Inl e \<Rightarrow> (default_status, w') | Inr st \<Rightarrow> (st, w'))"
    by (simp add: check_unlock_status_def check_unlock_status_body_def find_one_def)
  from ev reset have "(case r of Inl e \<Rightarrow> None | Inr st \<Rightarrow> completed_assessments st)
      = integer_days (get_days (pd_completed_assessments progress))"
    unfolding evaluate_unlock_conditions_def
    by (auto simp: Let_def split: prod.splits if_splits option.splits)
  with c show ?thesis by (cases r) (simp_all add: default_status_def)
qed

lemmas array_defs = phases_item_def py_index_def py_pos_def drift_world_def

text \<open>
  Claim C6, where the code departs from it. The learner's curriculum, in the array layout,
  has day 1 passed with 85; the progress record has drifted to three unlocked days and no
  completed one, which is the state that triggers the reconciliation. The rebuild raises
  \<^verbatim>\<open>AttributeError\<close> and leaves the store as it was, and \<^verbatim>\<open>check_unlock_status\<close> returns and
  stores no completed day and the unlocked days \<open>[1]\<close>: day 1 is not among the completed
  assessments although its embedded assessment is completed with a score of at least 70,
  and day 2 is locked.
\<close>

theorem reset_unlock_status_skips_array_curriculum:
  "phases_item \<lparr>phases = Some (PhaseList [scenario_phase [scenario_task 1 (Some (passed_assessment 85))]])\<rparr>
      (Some (IntKey 0)) = Inr (scenario_phase [scenario_task 1 (Some (passed_assessment 85))])
   \<and> actually_completed (get_weekly_schedule
        (scenario_phase [scenario_task 1 (Some (passed_assessment 85))])) = [Day 1]
   \<and> reset_unlock_status drift_world ''learner'' (IntKey 0) 5 = (ResetError AttributeError, drift_world)
   \<and> fst (check_unlock_status drift_world ''learner'' (IntKey 0) 5)
       = \<lparr>unlocked_days = [1], completed_assessments = Some [], current_day = 1,
          unlock_trigger = ''auto_sequential''\<rparr>
   \<and> learning_progress (snd (check_unlock_status drift_world ''learner'' (IntKey 0) 5))
        (''learner'', IntKey 0)
       = Some \<lparr>pd_unlocked_days = Some [1], pd_completed_assessments = Some [],
            pd_unlock_trigger = Some ''corrected'', pd_created_at = Some 0, pd_updated_at = Some 5\<rparr>"
  by (simp add: array_defs reset_defs status_defs set_eq_list_all)

section \<open>Properties of the assessment routes\<close>

lemma py_pos_bound: "py_pos xs i = Some j \<Longrightarrow> j < length xs"
  by (auto simp: py_pos_def split: if_splits)

lemma py_pos_list_update [simp]: "py_pos (xs[j := v]) i = py_pos xs i"
  by (simp add: py_pos_def)

lemma py_pos_modify [simp]: "py_pos (py_modify xs i f) k = py_pos xs k"
  by (simp add: py_pos_def py_modify_def split: option.splits)

lemma py_index_modify:
  "py_index xs i = Inr x \<Longrightarrow> py_index (py_modify xs i f) i = Inr (f x)"
  by (auto simp: py_index_def py_modify_def dest: py_pos_bound split: option.splits)

lemma locate_task_modify:
  assumes "locate_task rm pid week_index task_index = Inr t"
  shows "locate_task (modify_task f rm pid week_index task_index) pid week_index task_index = Inr (f t)"
  using assms unfolding locate_task_def modify_task_def modify_phase_def phases_item_def
  by (auto simp: py_index_modify split: option.splits sum.splits phases_val.splits phase_key.splits)


lemma stored_task_after:
  assumes "users w uid = Some u" and "locate_task rm (Some pid) week_index task_index = Inr t"
  shows "stored_task (w\<lparr>users := (users w)(uid \<mapsto> u\<lparr>road_map :=
            Some (modify_task f rm (Some pid) week_index task_index)\<rparr>)\<rparr>) uid pid week_index task_index
         = Some (f t)"
  using assms by (simp add: stored_task_def locate_task_modify)

text \<open>The failed branch of the route never writes to the progress collection.\<close>

lemma store_submission_failed:
  assumes "store_submission w uid pid d week_index task_index rm final_score False now = (r, w')"
  shows "learning_progress w' = learning_progress w"
  using assms unfolding store_submission_def users_set_road_map_def db_fault_def
  by (auto simp: Let_def split: sum.splits prod.splits option.splits list.splits bool.splits)

lemma get_user_by_id_progress:
  "learning_progress (snd (get_user_by_id w uid)) = learning_progress w"
  by (simp add: get_user_by_id_def db_fault_def split: list.splits bool.splits)

lemma submit_assessment_failed_progress:
  assumes low: "final_score_of (evaluate_answers te ce req) < 70"
  shows "learning_progress (snd (submit_assessment te ce w session req now)) = learning_progress w"
proof (cases session)
  case None
  then show ?thesis by (simp add: submit_assessment_def)
next
  case (Some uid)
  note session = Some
  show ?thesis
  proof (cases "sr_phase_id req")
    case None
    with session show ?thesis by (simp add: submit_assessment_def)
  next
    case (Some pid)
    note pid = Some
    show ?thesis
    proof (cases "sr_assessment_answers req = [] \<or> sr_assessment_type req = []")
      case True
      with session pid show ?thesis by (simp add: submit_assessment_def)
    next
      case False
      obtain ru w1 where gu: "get_user_by_id w uid = (ru, w1)"
        by (cases "get_user_by_id w uid")
      with get_user_by_id_progress[of w uid] have lp1: "learning_progress w1 = learning_progress w"
        by simp
      from low have np: "\<not> 70 \<le> final_score_of (evaluate_answers te ce req)" by simp
      show ?thesis
      proof (cases ru)
        case (Inl e)
        with session pid False gu lp1 show ?thesis
          by (simp add: submit_assessment_def Let_def)
      next
        case (Inr uo)
        show ?thesis
        proof (cases uo)
          case None
          with Inr session pid False gu lp1 show ?thesis
            by (simp add: submit_assessment_def Let_def)
        next
          case (Some u)
          obtain rs w2 where ss: "store_submission w1 uid pid (sr_day req) (sr_week_index req)
              (sr_task_index req) (case road_map u of None \<Rightarrow> \<lparr>phases = None\<rparr> | Some rm \<Rightarrow> rm)
              (final_score_of (evaluate_answers te ce req)) False now = (rs, w2)"
            by (cases "store_submission w1 uid pid (sr_day req) (sr_week_index req)
              (sr_task_index req) (case road_map u of None \<Rightarrow> \<lparr>phases = None\<rparr> | Some rm \<Rightarrow> rm)
              (final_score_of (evaluate_answers te ce req)) False now")
          from store_submission_failed[OF ss] lp1 have lp2: "learning_progress w2 = learning_progress w"
            by simp
          from Some Inr session pid False gu ss lp2 np show ?thesis
            by (cases rs) (auto simp: submit_assessment_def Let_def split: prod.splits)
        qed
      qed
    qed
  qed
qed


lemma update_one_users: "users (snd (update_one w k upd upsert)) = users w"
  by (simp add: update_one_def db_fault_def split: list.splits bool.splits option.splits)

lemma find_one_users: "users (snd (find_one w k)) = users w"
  by (simp add: find_one_def db_fault_def split: list.splits bool.splits)

lemma trigger_automatic_unlock_users:
  "users (snd (trigger_automatic_unlock w uid pid d now)) = users w"
proof -
  obtain r w1 where f: "find_one w (uid, pid) = (r, w1)" by (cases "find_one w (uid, pid)")
  with find_one_users[of w "(uid, pid)"] have u1: "users w1 = users w" by simp
  have u2: "\<And>upd r2 w2. update_one w1 (uid, pid) upd False = (r2, w2) \<Longrightarrow> users w2 = users w"
    using update_one_users[of w1] u1 by (metis snd_conv)
  show ?thesis
    unfolding trigger_automatic_unlock_def f
    using u1 u2
    by (auto simp: Let_def split: sum.splits option.splits prod.splits jday.splits)
qed

lemma db_fault_users: "users (snd (db_fault w)) = users w"
  by (simp add: db_fault_def split: list.splits)

lemma attempt_count_next:
  "(case t_assessment t of
      None \<Rightarrow> 1
    | Some existing \<Rightarrow> if assessment_truthy existing then get_attempts existing + 1 else 1)
   = attempt_count t + 1"
  by (auto simp: attempt_count_def assessment_truthy_def get_attempts_def split: option.splits)

lemma store_submission_stored:
  assumes ok: "store_submission w uid pid d week_index task_index rm final_score is_passed now
                 = (Inr (n, unlock), w')"
    and u: "users w uid = Some u"
  shows "\<exists>t. locate_task rm (Some pid) week_index task_index = Inr t \<and> n = attempt_count t + 1 \<and>
           users w' = (users w)(uid \<mapsto> u\<lparr>road_map := Some (modify_task
              (\<lambda>t. t\<lparr>t_assessment := Some (assessment_record is_passed final_score n now)\<rparr>)
              rm (Some pid) week_index task_index)\<rparr>)"
proof (cases "locate_task rm (Some pid) week_index task_index")
  case (Inl e)
  with ok show ?thesis by (simp add: store_submission_def)
next
  case (Inr t)
  define n0 where "n0 = attempt_count t + 1"
  define rm' where "rm' = modify_task
              (\<lambda>t. t\<lparr>t_assessment := Some (assessment_record is_passed final_score n0 now)\<rparr>)
              rm (Some pid) week_index task_index"
  obtain f w0 where df: "db_fault w = (f, w0)" by (cases "db_fault w")
  with db_fault_users[of w] have u0: "users w0 = users w" by simp
  from ok Inr have ok': "(case users_set_road_map w uid rm' of
                (Inl e, w1) \<Rightarrow> (Inl e, w1)
              | (Inr _, w1) \<Rightarrow>
                  if is_passed
                  then (case update_one w1 (uid, pid) (completed_update d now) True of
                          (Inl e, w2) \<Rightarrow> (Inl e, w2)
                        | (Inr _, w2) \<Rightarrow>
                            (case trigger_automatic_unlock w2 uid pid d now of
                               (r, w3) \<Rightarrow> (Inr (n0, Some r), w3)))
                  else (Inr (n0, None), w1)) = (Inr (n, unlock), w')"
    unfolding n0_def rm'_def by (simp add: store_submission_def attempt_count_next Let_def)
  obtain rs w1 where us: "users_set_road_map w uid rm' = (rs, w1)"
    by (cases "users_set_road_map w uid rm'")
  show ?thesis
  proof (cases rs)
    case (Inl e)
    with ok' us show ?thesis by simp
  next
    case (Inr x)
    from us Inr df u u0 have u1: "users w1 = (users w)(uid \<mapsto> u\<lparr>road_map := Some rm'\<rparr>)"
      by (cases f) (auto simp: users_set_road_map_def)
    show ?thesis
    proof (cases is_passed)
      case False
      with ok' us Inr u1 \<open>locate_task rm (Some pid) week_index task_index = Inr t\<close>
      show ?thesis by (auto simp: n0_def rm'_def)
    next
      case True
      obtain r2 w2 where uo: "update_one w1 (uid, pid) (completed_update d now) True = (r2, w2)"
        by (cases "update_one w1 (uid, pid) (completed_update d now) True")
      with update_one_users[of w1 "(uid, pid)" "completed_update d now" True]
      have u2: "users w2 = users w1" by simp
      obtain r3 w3 where tr: "trigger_automatic_unlock w2 uid pid d now = (r3, w3)"
        by (cases "trigger_automatic_unlock w2 uid pid d now")
      with trigger_automatic_unlock_users[of w2 uid pid d now]
      have u3: "users w3 = users w2" by simp
      from ok' us Inr True uo tr have "n = n0 \<and> w' = w3"
        by (cases r2) auto
      with u1 u2 u3 \<open>locate_task rm (Some pid) week_index task_index = Inr t\<close>
      show ?thesis by (auto simp: n0_def rm'_def)
    qed
  qed
qed


lemma get_user_by_id_result:
  assumes "get_user_by_id w uid = (Inr uo, w1)"
  shows "uo = users w uid \<and> users w1 = users w"
  using assms
  by (auto simp: get_user_by_id_def db_fault_def split: list.splits bool.splits)

lemma submit_assessment_submitted:
  assumes sub: "submit_assessment te ce w session req now = (Submitted r, w')"
  shows "\<exists>uid pid t. session = Some uid \<and> sr_phase_id req = Some pid \<and>
      stored_task w uid pid (sr_week_index req) (sr_task_index req) = Some t \<and>
      score r = final_score_of (evaluate_answers te ce req) \<and>
      passed r = (70 \<le> final_score_of (evaluate_answers te ce req)) \<and>
      attempts r = attempt_count t + 1 \<and>
      stored_task w' uid pid (sr_week_index req) (sr_task_index req) =
        Some (t\<lparr>t_assessment := Some (assessment_record
           (70 \<le> final_score_of (evaluate_answers te ce req))
           (final_score_of (evaluate_answers te ce req)) (attempt_count t + 1) now)\<rparr>)"
proof (cases session)
  case None
  with sub show ?thesis by (simp add: submit_assessment_def)
next
  case (Some uid)
  note session = Some
  show ?thesis
  proof (cases "sr_phase_id req")
    case None
    with session sub show ?thesis by (simp add: submit_assessment_def)
  next
    case (Some pid)
    note pid = Some
    show ?thesis
    proof (cases "sr_assessment_answers req = [] \<or> sr_assessment_type req = []")
      case True
      with session pid sub show ?thesis by (simp add: submit_assessment_def)
    next
      case False
      define fs where "fs = final_score_of (evaluate_answers te ce req)"
      obtain ru w1 where gu: "get_user_by_id w uid = (ru, w1)"
        by (cases "get_user_by_id w uid")
      show ?thesis
      proof (cases ru)
        case (Inl e)
        with session pid False gu sub show ?thesis
          by (simp add: submit_assessment_def Let_def)
      next
        case (Inr uo)
        from get_user_by_id_result[of w uid uo w1] gu Inr
        have uo: "uo = users w uid" and u1: "users w1 = users w" by simp_all
        show ?thesis
        proof (cases uo)
          case None
          with Inr session pid False gu sub show ?thesis
            by (simp add: submit_assessment_def Let_def)
        next
          case (Some u)
          define rm where "rm = (case road_map u of None \<Rightarrow> \<lparr>phases = None\<rparr> | Some rm \<Rightarrow> rm)"
          obtain rs w2 where ss: "store_submission w1 uid pid (sr_day req) (sr_week_index req)
              (sr_task_index req) rm fs (70 \<le> fs) now = (rs, w2)"
            by (cases "store_submission w1 uid pid (sr_day req) (sr_week_index req)
              (sr_task_index req) rm fs (70 \<le> fs) now")
          show ?thesis
          proof (cases rs)
            case (Inl e)
            with Some Inr session pid False gu ss sub show ?thesis
              by (simp add: submit_assessment_def Let_def fs_def rm_def)
          next
            case (Inr nu)
            obtain n unlock where nu: "nu = (n, unlock)" by (cases nu)
            from Some \<open>ru = Inr uo\<close> session pid False gu ss sub Inr nu
            have r: "score r = fs \<and> passed r = (70 \<le> fs) \<and> attempts r = n \<and> w' = w2"
              by (auto simp: submit_assessment_def Let_def fs_def rm_def)
            from Some uo u1 have us: "users w1 uid = Some u" by simp
            from store_submission_stored[OF ss[unfolded Inr nu] us] obtain t where
              loc: "locate_task rm (Some pid) (sr_week_index req) (sr_task_index req) = Inr t"
              and n: "n = attempt_count t + 1"
              and u2: "users w2 = (users w1)(uid \<mapsto> u\<lparr>road_map := Some (modify_task
                (\<lambda>t. t\<lparr>t_assessment := Some (assessment_record (70 \<le> fs) fs n now)\<rparr>)
                rm (Some pid) (sr_week_index req) (sr_task_index req))\<rparr>)"
              by blast
            have rmS: "road_map u = Some rm"
            proof (cases "road_map u")
              case None
              with loc show ?thesis by (simp add: rm_def locate_task_def phases_item_def)
            next
              case (Some x)
              then show ?thesis by (simp add: rm_def)
            qed
            from Some uo rmS loc
            have before: "stored_task w uid pid (sr_week_index req) (sr_task_index req) = Some t"
              by (simp add: stored_task_def)
            from u2 loc have after: "stored_task w2 uid pid (sr_week_index req) (sr_task_index req) =
                Some (t\<lparr>t_assessment := Some (assessment_record (70 \<le> fs) fs n now)\<rparr>)"
              by (simp add: stored_task_def locate_task_modify)
            from session pid before after r n show ?thesis
              by (simp add: fs_def)
          qed
        qed
      qed
    qed
  qed
qed

text \<open>
  Claim C4. Whenever \<^verbatim>\<open>submit_assessment\<close> answers with an evaluation (the responses that
  carry the \<^verbatim>\<open>passed\<close> flag), the reported score is the score of the evaluation and the
  flag is true exactly when that score is at least 70, for every evaluator, state and
  request. The error responses carry no flag.
\<close>

theorem submit_assessment_passed_iff:
  assumes "submit_assessment te ce w session req now = (Submitted r, w')"
  shows "score r = final_score_of (evaluate_answers te ce req) \<and> passed r = (70 \<le> score r)"
  using submit_assessment_submitted[OF assms] by auto

text \<open>
  Claim C5. A submission whose evaluated score is below 70 leaves the whole progress
  collection as it was, whatever the response; and when the route answers with the
  evaluation, the assessment now stored at the task has the attempt counter of the one
  stored before (0 when there was none) plus one, which is also the counter reported.
\<close>

theorem submit_assessment_failed_frame:
  assumes "final_score_of (evaluate_answers te ce req) < 70"
  shows "learning_progress (snd (submit_assessment te ce w session req now)) = learning_progress w
       \<and> (\<forall>r. fst (submit_assessment te ce w session req now) = Submitted r \<longrightarrow>
            \<not> passed r \<and>
            (\<exists>uid pid t t'. session = Some uid \<and> sr_phase_id req = Some pid \<and>
               stored_task w uid pid (sr_week_index req) (sr_task_index req) = Some t \<and>
               stored_task (snd (submit_assessment te ce w session req now)) uid pid
                 (sr_week_index req) (sr_task_index req) = Some t' \<and>
               attempt_count t' = attempt_count t + 1 \<and> attempts r = attempt_count t + 1))"
proof (intro conjI allI impI)
  show "learning_progress (snd (submit_assessment te ce w session req now)) = learning_progress w"
    using assms by (rule submit_assessment_failed_progress)
next
  fix r assume "fst (submit_assessment te ce w session req now) = Submitted r"
  then have s: "submit_assessment te ce w session req now =
      (Submitted r, snd (submit_assessment te ce w session req now))"
    by (metis prod.collapse)
  from submit_assessment_submitted[OF s] assms show "\<not> passed r" by auto
  from submit_assessment_submitted[OF s]
  show "\<exists>uid pid t t'. session = Some uid \<and> sr_phase_id req = Some pid \<and>
               stored_task w uid pid (sr_week_index req) (sr_task_index req) = Some t \<and>
               stored_task (snd (submit_assessment te ce w session req now)) uid pid
                 (sr_week_index req) (sr_task_index req) = Some t' \<and>
               attempt_count t' = attempt_count t + 1 \<and> attempts r = attempt_count t + 1"
    by (auto simp: attempt_count_def get_attempts_def assessment_record_def)
qed

lemmas route_defs = submit_assessment_def evaluate_answers_def final_score_of_def
    get_user_by_id_def db_fault_def store_submission_def locate_task_def phases_item_def
    py_index_def py_pos_def modify_task_def modify_phase_def py_modify_def users_set_road_map_def
    assessment_truthy_def get_attempts_def assessment_record_def update_one_def completed_update_def
    add_to_set_def trigger_automatic_unlock_def find_one_def auto_update_def get_list_def get_days_def
    stored_task_def attempt_count_def empty_doc_def store_assessment_def stored_assessment_def
    scenario_def scenario_doc_def scenario_task_def scenario_phase_def list_roadmap_def
    dict_roadmap_def passed_assessment_def failed_assessment_def theory_request_def scoring_def
    first_day_world_def retry_world_def store_request_40_def Let_def

theorem submit_assessment_passed_iff_witness:
  "fst (submit_assessment (scoring 70) (scoring 0) first_day_world (Some ''learner'') (theory_request 1) 9)
     = Submitted \<lparr>passed = True, attempts = 1, score = 70,
         unlock_info = Some (Unlocked 2 [1, 2]), next_day_unlocked = Some 2\<rparr>
   \<and> fst (submit_assessment (scoring 69) (scoring 0) first_day_world (Some ''learner'') (theory_request 1) 9)
     = Submitted \<lparr>passed = False, attempts = 1, score = 69,
         unlock_info = None, next_day_unlocked = None\<rparr>"
proof -
  have a: "submit_assessment (scoring 70) (scoring 0) first_day_world (Some ''learner'') (theory_request 1) 9
     = (Submitted \<lparr>passed = True, attempts = 1, score = 70,
         unlock_info = Some (Unlocked 2 [1, 2]), next_day_unlocked = Some 2\<rparr>,
        snd (submit_assessment (scoring 70) (scoring 0) first_day_world (Some ''learner'') (theory_request 1) 9))"
    by (simp add: prod_eq_iff) (simp add: route_defs)
  have b: "submit_assessment (scoring 69) (scoring 0) first_day_world (Some ''learner'') (theory_request 1) 9
     = (Submitted \<lparr>passed = False, attempts = 1, score = 69,
         unlock_info = None, next_day_unlocked = None\<rparr>,
        snd (submit_assessment (scoring 69) (scoring 0) first_day_world (Some ''learner'') (theory_request 1) 9))"
    by (simp add: prod_eq_iff) (simp add: route_defs)
  from submit_assessment_passed_iff[OF a] submit_assessment_passed_iff[OF b] a b
  show ?thesis by (simp add: prod_eq_iff)
qed

theorem submit_assessment_failed_frame_witness:
  "final_score_of (evaluate_answers (scoring 40) (scoring 0) (theory_request 1)) < 70
   \<and> learning_progress (snd (submit_assessment (scoring 40) (scoring 0) retry_world
        (Some ''learner'') (theory_request 1) 9)) = learning_progress retry_world
   \<and> fst (submit_assessment (scoring 40) (scoring 0) retry_world (Some ''learner'') (theory_request 1) 9)
     = Submitted \<lparr>passed = False, attempts = 2, score = 40,
         unlock_info = None, next_day_unlocked = None\<rparr>
   \<and> map_option attempt_count (stored_task retry_world ''learner'' (IntKey 0) 0 0) = Some 1
   \<and> map_option attempt_count (stored_task (snd (submit_assessment (scoring 40) (scoring 0) retry_world
        (Some ''learner'') (theory_request 1) 9)) ''learner'' (IntKey 0) 0 0) = Some 2"
proof -
  have low: "final_score_of (evaluate_answers (scoring 40) (scoring 0) (theory_request 1)) < 70"
    by (simp add: final_score_of_def evaluate_answers_def scoring_def theory_request_def)
  have run: "fst (submit_assessment (scoring 40) (scoring 0) retry_world (Some ''learner'') (theory_request 1) 9)
     = Submitted \<lparr>passed = False, attempts = 2, score = 40,
         unlock_info = None, next_day_unlocked = None\<rparr>"
    by (simp add: route_defs)
  have before: "map_option attempt_count (stored_task retry_world ''learner'' (IntKey 0) 0 0) = Some 1"
    by (simp add: route_defs)
  have after: "map_option attempt_count (stored_task (snd (submit_assessment (scoring 40) (scoring 0) retry_world
        (Some ''learner'') (theory_request 1) 9)) ''learner'' (IntKey 0) 0 0) = Some 2"
    by (simp add: route_defs)
  from submit_assessment_failed_frame[OF low, of retry_world "Some ''learner''" 9] low run before after
  show ?thesis by simp
qed

text \<open>Every record that \<^verbatim>\<open>submit_assessment\<close> writes is completed exactly when its score is at least 70.\<close>

lemma submit_assessment_record_threshold:
  assumes "submit_assessment te ce w session req now = (Submitted r, w')"
  shows "\<exists>uid pid t a. session = Some uid \<and> sr_phase_id req = Some pid \<and>
      stored_task w' uid pid (sr_week_index req) (sr_task_index req) = Some t \<and>
      t_assessment t = Some a \<and> a_score a = Some (score r) \<and> a_completed a = Some (70 \<le> score r)"
  using submit_assessment_submitted[OF assms] by (auto simp: assessment_record_def)

text \<open>
  Claim C1, where the code departs from it. \<^verbatim>\<open>store_assessment\<close> writes
  \<^verbatim>\<open>'completed': True\<close> whatever the score: storing a result of 40 for day 1 leaves an
  assessment record that is completed with score 40, adds day 1 to the completed
  assessments of the progress record, and the next \<^verbatim>\<open>check_unlock_status\<close> unlocks day 2.
\<close>

theorem store_assessment_completed_below_threshold:
  "fst (store_assessment first_day_world (Some ''learner'') store_request_40 9) = Stored
   \<and> stored_task (snd (store_assessment first_day_world (Some ''learner'') store_request_40 9))
        ''learner'' (IntKey 0) 0 0
     = Some \<lparr>t_day = Some (Day 1),
          t_assessment = Some \<lparr>a_completed = Some True, a_score = Some 40,
            a_status = Some ''completed'', a_attempts = Some 1, a_submitted_at = None,
            a_completed_at = Some 9\<rparr>,
          t_assessed = Some True, t_assessment_completed = Some True\<rparr>
   \<and> map_option pd_completed_assessments
        (learning_progress (snd (store_assessment first_day_world (Some ''learner'') store_request_40 9))
           (''learner'', IntKey 0)) = Some (Some [Day 1])
   \<and> unlocked_days (fst (check_unlock_status
        (snd (store_assessment first_day_world (Some ''learner'') store_request_40 9))
        ''learner'' (IntKey 0) 10)) = [1, 2]"
  by (simp add: route_defs status_defs set_eq_list_all)

end
